theory Spec2Isabelle
  imports Main "HOL-Library.Sublist"
begin

section \<open>Strings\<close>

text \<open>
  JavaScript strings are modelled as \<^typ>\<open>string\<close>: the list of the bytes of the text in
  UTF-8. Searching (\<^verbatim>\<open>includes\<close>, \<^verbatim>\<open>startsWith\<close>), \<^verbatim>\<open>trim\<close> and the \<^verbatim>\<open>length\<close> property
  are modelled for every text: white space is the table of the encodings of the
  JavaScript white space and line terminator characters, and \<open>jsLength\<close> counts UTF-16
  code units. The case conversions are those of JavaScript on ASCII text only (package
  names, script names, file names, the literals the code searches for); the properties
  that depend on them say so with \<open>isAscii\<close>.
\<close>

definition includes_str :: "string \<Rightarrow> string \<Rightarrow> bool" where
  \<comment> \<open>\<^verbatim>\<open>s.includes(t)\<close>\<close>
  "includes_str s t = sublist t s"

definition startsWith :: "string \<Rightarrow> string \<Rightarrow> bool" where
  \<comment> \<open>\<^verbatim>\<open>s.startsWith(t)\<close>\<close>
  "startsWith s t = prefix t s"

definition toLowerCase_char :: "char \<Rightarrow> char" where
  "toLowerCase_char c =
     (let n = (of_char c :: nat) in if 65 \<le> n \<and> n \<le> 90 then char_of (n + 32) else c)"

definition toLowerCase :: "string \<Rightarrow> string" where
  "toLowerCase s = map toLowerCase_char s"

definition toUpperCase_char :: "char \<Rightarrow> char" where
  "toUpperCase_char c =
     (let n = (of_char c :: nat) in if 97 \<le> n \<and> n \<le> 122 then char_of (n - 32) else c)"

definition toUpperCase :: "string \<Rightarrow> string" where
  "toUpperCase s = map toUpperCase_char s"

fun join :: "string \<Rightarrow> string list \<Rightarrow> string" where
  \<comment> \<open>\<^verbatim>\<open>xs.join(sep)\<close>\<close>
  "join sep [] = []"
| "join sep [x] = x"
| "join sep (x # y # ys) = x @ sep @ join sep (y # ys)"

definition some :: "'a list \<Rightarrow> ('a \<Rightarrow> bool) \<Rightarrow> bool" where
  \<comment> \<open>\<^verbatim>\<open>xs.some(p)\<close>\<close>
  "some xs p = list_ex p xs"

definition truthy :: "string option \<Rightarrow> bool" where
  \<comment> \<open>an optional string used as a condition: \<^verbatim>\<open>undefined\<close> and \<^verbatim>\<open>""\<close> are falsy\<close>
  "truthy v = (case v of None \<Rightarrow> False | Some s \<Rightarrow> s \<noteq> [])"

definition or_else :: "string option \<Rightarrow> string \<Rightarrow> string" where
  \<comment> \<open>\<^verbatim>\<open>v || d\<close> for an optional string \<open>v\<close>\<close>
  "or_else v d = (case v of None \<Rightarrow> d | Some s \<Rightarrow> if s = [] then d else s)"

definition ifTruthy :: "string option \<Rightarrow> (string \<Rightarrow> string) \<Rightarrow> string \<Rightarrow> string" where
  \<comment> \<open>\<^verbatim>\<open>v ? f(v) : d\<close> for an optional string \<open>v\<close>\<close>
  "ifTruthy v f d = (case v of None \<Rightarrow> d | Some s \<Rightarrow> if s = [] then d else f s)"

text \<open>
  The encodings of the characters \<^verbatim>\<open>trim\<close> strips: U+0009 to U+000D, U+0020, U+00A0,
  U+1680, U+2000 to U+200A, U+2028, U+2029, U+202F, U+205F, U+3000 and U+FEFF.
\<close>

definition whiteSpace :: "string list" where
  "whiteSpace =
     [[CHR 0x09], [CHR 0x0A], [CHR 0x0B], [CHR 0x0C], [CHR 0x0D], [CHR 0x20],
      [CHR 0xC2, CHR 0xA0],
      [CHR 0xE1, CHR 0x9A, CHR 0x80],
      [CHR 0xE2, CHR 0x80, CHR 0x80], [CHR 0xE2, CHR 0x80, CHR 0x81],
      [CHR 0xE2, CHR 0x80, CHR 0x82], [CHR 0xE2, CHR 0x80, CHR 0x83],
      [CHR 0xE2, CHR 0x80, CHR 0x84], [CHR 0xE2, CHR 0x80, CHR 0x85],
      [CHR 0xE2, CHR 0x80, CHR 0x86], [CHR 0xE2, CHR 0x80, CHR 0x87],
      [CHR 0xE2, CHR 0x80, CHR 0x88], [CHR 0xE2, CHR 0x80, CHR 0x89],
      [CHR 0xE2, CHR 0x80, CHR 0x8A],
      [CHR 0xE2, CHR 0x80, CHR 0xA8], [CHR 0xE2, CHR 0x80, CHR 0xA9],
      [CHR 0xE2, CHR 0x80, CHR 0xAF],
      [CHR 0xE2, CHR 0x81, CHR 0x9F],
      [CHR 0xE3, CHR 0x80, CHR 0x80],
      [CHR 0xEF, CHR 0xBB, CHR 0xBF]]"

text \<open>
  The number of bytes of the white space character a text starts with, or ends with;
  \<open>0\<close> when there is none.
\<close>

definition whiteSpaceAtStart :: "string \<Rightarrow> nat" where
  "whiteSpaceAtStart s =
     (case find (\<lambda>w. prefix w s) whiteSpace of None \<Rightarrow> 0 | Some w \<Rightarrow> length w)"

definition whiteSpaceAtEnd :: "string \<Rightarrow> nat" where
  "whiteSpaceAtEnd s =
     (case find (\<lambda>w. suffix w s) whiteSpace of None \<Rightarrow> 0 | Some w \<Rightarrow> length w)"

function trimStart :: "string \<Rightarrow> string" where
  "trimStart s =
     (if whiteSpaceAtStart s = 0 then s else trimStart (drop (whiteSpaceAtStart s) s))"
  by pat_completeness auto
termination
proof (relation "measure length")
  fix s assume a: "whiteSpaceAtStart s \<noteq> 0"
  have "whiteSpaceAtStart s \<le> length s"
    by (auto simp: whiteSpaceAtStart_def find_Some_iff prefix_length_le split: option.splits)
  with a show "(drop (whiteSpaceAtStart s) s, s) \<in> measure length"
    by auto
qed simp

function trimEnd :: "string \<Rightarrow> string" where
  "trimEnd s =
     (if whiteSpaceAtEnd s = 0 then s else trimEnd (take (length s - whiteSpaceAtEnd s) s))"
  by pat_completeness auto
termination
proof (relation "measure length")
  fix s assume a: "whiteSpaceAtEnd s \<noteq> 0"
  have "whiteSpaceAtEnd s \<le> length s"
    by (auto simp: whiteSpaceAtEnd_def find_Some_iff suffix_length_le split: option.splits)
  with a show "(take (length s - whiteSpaceAtEnd s) s, s) \<in> measure length"
    by auto
qed simp

declare trimStart.simps [simp del] trimEnd.simps [simp del]

definition trim :: "string \<Rightarrow> string" where
  \<comment> \<open>\<^verbatim>\<open>s.trim()\<close>\<close>
  "trim s = trimEnd (trimStart s)"

text \<open>
  \<^verbatim>\<open>s.length\<close>, the number of UTF-16 code units: one for every character, and one more
  for a character of four bytes (a surrogate pair). A byte from \<open>0x80\<close> to \<open>0xBF\<close>
  continues a character; a byte from \<open>0xF0\<close> on starts one of four bytes.
\<close>

definition jsLength :: "string \<Rightarrow> nat" where
  "jsLength s =
     length (filter (\<lambda>c. \<not> (128 \<le> (of_char c :: nat) \<and> (of_char c :: nat) < 192)) s) +
     length (filter (\<lambda>c. 240 \<le> (of_char c :: nat)) s)"


section \<open>Data model\<close>

text \<open>\<^verbatim>\<open>src/models/ProjectInfo.ts\<close>; an optional field is an \<open>option\<close>.\<close>

record ProjectInfo =
  name :: string
  description :: "string option"
  dependencies :: "string list"
  devDependencies :: "string list"
  scripts :: "string list"
  fileTypes :: "string list"
  hasTests :: bool
  license :: "string option"
  repository :: "string option"
  framework :: "string option"
  workspacePath :: string
  version :: "string option"
  author :: "string option"
  homepage :: "string option"

text \<open>The interface \<^verbatim>\<open>ProjectAnalysis\<close> of the AI service.\<close>

record ProjectAnalysis =
  projectType :: string
  mainPurpose :: string
  keyTechnologies :: "string list"
  frameworkDetails :: string
  specialFeatures :: "string list"
  architectureNotes :: string
  deploymentHints :: string
  projectStructure :: string

section \<open>The project classifier: \<^verbatim>\<open>GroqService.performDeepProjectAnalysis\<close>\<close>

text \<open>
  The function is a sequence of blocks, each updating the local variables that end up
  in the returned \<^typ>\<open>ProjectAnalysis\<close>. Each block is a function on that record, in the
  order of the source. \<open>keyTechnologies.push(...)\<close> and \<open>specialFeatures.push(...)\<close>
  append.
\<close>

definition initialAnalysis :: "string \<Rightarrow> ProjectAnalysis" where
  "initialAnalysis structure =
     \<lparr> projectType = ''Application'',
       mainPurpose = ''A modern software application'',
       keyTechnologies = [],
       frameworkDetails = [],
       specialFeatures = [],
       architectureNotes = [],
       deploymentHints = [],
       projectStructure = structure \<rparr>"

definition isBackend :: "string \<Rightarrow> string \<Rightarrow> string \<Rightarrow> bool" where
  "isBackend allDeps fileTypesStr scriptsStr \<longleftrightarrow>
     includes_str allDeps ''express'' \<or> includes_str allDeps ''fastify'' \<or>
     includes_str allDeps ''koa'' \<or> includes_str allDeps ''nestjs'' \<or>
     includes_str fileTypesStr ''controller'' \<or> includes_str scriptsStr ''start''"

definition isPython :: "string \<Rightarrow> string \<Rightarrow> bool" where
  "isPython allDeps fileTypesStr \<longleftrightarrow>
     includes_str fileTypesStr ''.py'' \<or> includes_str allDeps ''django'' \<or>
     includes_str allDeps ''flask''"

definition reactBranch :: "string \<Rightarrow> string \<Rightarrow> ProjectAnalysis \<Rightarrow> ProjectAnalysis" where
  "reactBranch allDeps scriptsStr a =
    (let a1 = a\<lparr> projectType := ''React Application'',
                  frameworkDetails := ''Built with React ecosystem'',
                  keyTechnologies := keyTechnologies a @
                    [''React'', ''JavaScript/TypeScript'', ''Modern Frontend''] \<rparr>;
         a2 = (if includes_str allDeps ''next'' then
                 a1\<lparr> projectType := ''Next.js Application'',
                     mainPurpose := ''A full-stack React application with server-side rendering'',
                     frameworkDetails := ''Built with Next.js framework'',
                     specialFeatures := specialFeatures a1 @
                       [''Server-side rendering'', ''API routes'', ''Static generation'',
                        ''Image optimization''],
                     deploymentHints := ''Deployable on Vercel, Netlify, or any Node.js server'' \<rparr>
               else if includes_str allDeps ''vite'' \<or> includes_str scriptsStr ''vite'' then
                 a1\<lparr> mainPurpose := ''A fast, modern React application built with Vite'',
                     specialFeatures := specialFeatures a1 @
                       [''Lightning-fast development'', ''Hot module replacement'',
                        ''Optimized builds''],
                     deploymentHints := ''Builds to static files, deployable on any web server'' \<rparr>
               else
                 a1\<lparr> mainPurpose := ''A dynamic React application with modern user interface'',
                     specialFeatures := specialFeatures a1 @
                       [''Component-based architecture'', ''Virtual DOM'', ''State management''] \<rparr>);
         a3 = (if includes_str allDeps ''router''
               then a2\<lparr> specialFeatures := specialFeatures a2 @ [''Client-side routing''] \<rparr>
               else a2);
         a4 = (if includes_str allDeps ''redux'' \<or> includes_str allDeps ''zustand''
               then a3\<lparr> specialFeatures := specialFeatures a3 @ [''State management''] \<rparr>
               else a3)
     in (if includes_str allDeps ''query'' \<or> includes_str allDeps ''swr''
         then a4\<lparr> specialFeatures := specialFeatures a4 @ [''Data fetching optimization''] \<rparr>
         else a4))"

definition pythonBranch :: "string \<Rightarrow> ProjectAnalysis \<Rightarrow> ProjectAnalysis" where
  "pythonBranch allDeps a =
    (let a1 = a\<lparr> projectType := ''Python Application'' \<rparr>;
         a2 = (if includes_str allDeps ''django'' then
                 a1\<lparr> mainPurpose := ''A Django web application with robust backend functionality'',
                     frameworkDetails := ''Built with Django framework'',
                     specialFeatures := specialFeatures a1 @
                       [''ORM integration'', ''Admin interface'', ''Security features''] \<rparr>
               else if includes_str allDeps ''flask'' then
                 a1\<lparr> mainPurpose := ''A lightweight Flask web application'',
                     frameworkDetails := ''Built with Flask framework'',
                     specialFeatures := specialFeatures a1 @
                       [''Lightweight architecture'', ''Flexible routing'', ''Template engine''] \<rparr>
               else
                 a1\<lparr> mainPurpose := ''A Python application with modern development practices'',
                     frameworkDetails := ''Built with Python'' \<rparr>)
     in a2\<lparr> keyTechnologies := keyTechnologies a2 @ [''Python'', ''Backend Development''] \<rparr>)"

definition detectCategory ::
  "string \<Rightarrow> string \<Rightarrow> string \<Rightarrow> ProjectAnalysis \<Rightarrow> ProjectAnalysis" where
  "detectCategory allDeps fileTypesStr scriptsStr a =
    (if isBackend allDeps fileTypesStr scriptsStr then
       a\<lparr> projectType := ''Backend API'',
          mainPurpose := ''A robust backend API service providing RESTful endpoints'',
          keyTechnologies := keyTechnologies a @
            [''Node.js'', ''Express/Fastify'', ''API Development''],
          frameworkDetails := ''Built with modern Node.js framework'',
          specialFeatures := specialFeatures a @
            [''RESTful API endpoints'', ''Middleware integration'', ''Database connectivity''],
          architectureNotes := ''Follows REST architectural patterns'' \<rparr>
     else if includes_str allDeps ''react'' then reactBranch allDeps scriptsStr a
     else if includes_str allDeps ''vue'' then
       a\<lparr> projectType := ''Vue.js Application'',
          mainPurpose := ''A progressive Vue.js application with reactive user interface'',
          frameworkDetails := ''Built with Vue.js framework'',
          keyTechnologies := keyTechnologies a @
            [''Vue.js'', ''JavaScript/TypeScript'', ''Frontend''],
          specialFeatures := specialFeatures a @
            [''Reactive data binding'', ''Component composition'', ''Vue ecosystem''] \<rparr>
     else if includes_str allDeps ''angular'' \<or> includes_str allDeps ''@angular'' then
       a\<lparr> projectType := ''Angular Application'',
          mainPurpose := ''A comprehensive Angular application with enterprise-grade features'',
          frameworkDetails := ''Built with Angular framework'',
          keyTechnologies := keyTechnologies a @
            [''Angular'', ''TypeScript'', ''Enterprise Frontend''],
          specialFeatures := specialFeatures a @
            [''Dependency injection'', ''RxJS integration'', ''Angular CLI''] \<rparr>
     else if includes_str allDeps ''react-native'' \<or> includes_str allDeps ''expo'' then
       a\<lparr> projectType := ''React Native Mobile App'',
          mainPurpose := ''A cross-platform mobile application for iOS and Android'',
          frameworkDetails := ''Built with React Native'',
          keyTechnologies := keyTechnologies a @
            [''React Native'', ''Mobile Development'', ''Cross-platform''],
          specialFeatures := specialFeatures a @
            [''Native performance'', ''Cross-platform compatibility'', ''Mobile-optimized UI''] \<rparr>
     else if includes_str allDeps ''electron'' then
       a\<lparr> projectType := ''Desktop Application'',
          mainPurpose := ''A cross-platform desktop application built with web technologies'',
          frameworkDetails := ''Built with Electron framework'',
          keyTechnologies := keyTechnologies a @
            [''Electron'', ''Desktop Development'', ''Cross-platform''],
          specialFeatures := specialFeatures a @
            [''Native desktop integration'', ''Cross-platform compatibility''] \<rparr>
     else if isPython allDeps fileTypesStr then pythonBranch allDeps a
     else a)"

text \<open>The block "Specific Project Type Detection by Name/Dependencies".\<close>

definition weatherPurpose :: string where
  "weatherPurpose =
     ''A comprehensive weather application providing real-time weather data and forecasts''"

definition taskPurpose :: string where
  "taskPurpose = ''A task management application for organizing and tracking activities''"

definition shopPurpose :: string where
  "shopPurpose = ''An e-commerce platform for online shopping and sales''"

definition blogPurpose :: string where
  "blogPurpose = ''A content management system for publishing and managing articles''"

definition chatPurpose :: string where
  "chatPurpose = ''A real-time communication platform for messaging and collaboration''"

definition weatherFeatures :: "string list" where
  "weatherFeatures =
     [''Real-time weather data'', ''Location services'', ''Weather forecasts'',
      ''Interactive charts'']"

definition taskFeatures :: "string list" where
  "taskFeatures = [''Task creation and management'', ''Priority settings'', ''Progress tracking'']"

definition shopFeatures :: "string list" where
  "shopFeatures =
     [''Product catalog'', ''Shopping cart'', ''Payment processing'', ''Order management'']"

definition blogFeatures :: "string list" where
  "blogFeatures = [''Content creation'', ''Publishing system'', ''SEO optimization'']"

definition chatFeatures :: "string list" where
  "chatFeatures = [''Real-time messaging'', ''User presence'', ''Message history'']"

definition isWeather :: "string \<Rightarrow> string \<Rightarrow> bool" where
  "isWeather projectName allDeps \<longleftrightarrow>
     includes_str projectName ''weather'' \<or> includes_str projectName ''klimate'' \<or>
     includes_str allDeps ''weather''"

definition isTask :: "string \<Rightarrow> string \<Rightarrow> bool" where
  "isTask projectName allDeps \<longleftrightarrow>
     includes_str projectName ''todo'' \<or> includes_str projectName ''task''"

definition isShop :: "string \<Rightarrow> string \<Rightarrow> bool" where
  "isShop projectName allDeps \<longleftrightarrow>
     includes_str projectName ''ecommerce'' \<or> includes_str projectName ''shop'' \<or>
     includes_str allDeps ''stripe''"

definition isBlog :: "string \<Rightarrow> string \<Rightarrow> bool" where
  "isBlog projectName allDeps \<longleftrightarrow>
     includes_str projectName ''blog'' \<or> includes_str allDeps ''contentful''"

definition isChat :: "string \<Rightarrow> string \<Rightarrow> bool" where
  "isChat projectName allDeps \<longleftrightarrow>
     includes_str projectName ''chat'' \<or> includes_str projectName ''message'' \<or>
     includes_str allDeps ''socket.io''"

definition detectByName :: "string \<Rightarrow> string \<Rightarrow> ProjectAnalysis \<Rightarrow> ProjectAnalysis" where
  "detectByName projectName allDeps a =
    (if isWeather projectName allDeps then
       a\<lparr> mainPurpose := weatherPurpose,
          specialFeatures := specialFeatures a @ weatherFeatures \<rparr>
     else if isTask projectName allDeps then
       a\<lparr> mainPurpose := taskPurpose,
          specialFeatures := specialFeatures a @ taskFeatures \<rparr>
     else if isShop projectName allDeps then
       a\<lparr> mainPurpose := shopPurpose,
          specialFeatures := specialFeatures a @ shopFeatures \<rparr>
     else if isBlog projectName allDeps then
       a\<lparr> mainPurpose := blogPurpose,
          specialFeatures := specialFeatures a @ blogFeatures \<rparr>
     else if isChat projectName allDeps then
       a\<lparr> mainPurpose := chatPurpose,
          specialFeatures := specialFeatures a @ chatFeatures \<rparr>
     else a)"

text \<open>The block "Technology-specific additions": four independent \<open>if\<close> statements.\<close>

definition detectTechnologies :: "string \<Rightarrow> string \<Rightarrow> ProjectAnalysis \<Rightarrow> ProjectAnalysis" where
  "detectTechnologies allDeps fileTypesStr a =
    (let a1 = (if includes_str allDeps ''typescript'' \<or> includes_str fileTypesStr ''.ts'' \<or>
                  includes_str fileTypesStr ''.tsx''
               then a\<lparr> keyTechnologies := keyTechnologies a @ [''TypeScript''],
                       specialFeatures := specialFeatures a @
                         [''Type safety'', ''Enhanced development experience''] \<rparr>
               else a);
         a2 = (if includes_str allDeps ''tailwind''
               then a1\<lparr> keyTechnologies := keyTechnologies a1 @ [''Tailwind CSS''],
                        specialFeatures := specialFeatures a1 @
                          [''Utility-first styling'', ''Responsive design system''] \<rparr>
               else a1);
         a3 = (if includes_str allDeps ''prisma'' \<or> includes_str allDeps ''mongoose'' \<or>
                  includes_str allDeps ''sequelize''
               then a2\<lparr> keyTechnologies := keyTechnologies a2 @ [''Database ORM''],
                        specialFeatures := specialFeatures a2 @
                          [''Database integration'', ''Data modeling''] \<rparr>
               else a2)
     in (if includes_str allDeps ''jest'' \<or> includes_str allDeps ''vitest'' \<or>
            includes_str allDeps ''cypress''
         then a3\<lparr> keyTechnologies := keyTechnologies a3 @ [''Testing Framework''],
                  specialFeatures := specialFeatures a3 @
                    [''Automated testing'', ''Quality assurance''] \<rparr>
         else a3))"

text \<open>The block "Architecture detection", on the rendered directory tree.\<close>

definition detectArchitecture :: "ProjectAnalysis \<Rightarrow> ProjectAnalysis" where
  "detectArchitecture a =
    (if includes_str (projectStructure a) ''components'' \<and>
        includes_str (projectStructure a) ''hooks''
     then a\<lparr> architectureNotes := ''Modern component-based architecture with custom hooks'' \<rparr>
     else if includes_str (projectStructure a) ''controllers'' \<and>
        includes_str (projectStructure a) ''models''
     then a\<lparr> architectureNotes := ''MVC (Model-View-Controller) architecture pattern'' \<rparr>
     else if includes_str (projectStructure a) ''services'' \<and>
        includes_str (projectStructure a) ''utils''
     then a\<lparr> architectureNotes := ''Service-oriented architecture with utility functions'' \<rparr>
     else a)"

text \<open>
  The strings the rules search. \<open>allDeps\<close> is the lower-cased dependency names joined by
  blanks, a blank, and the same for the development dependencies.
\<close>

definition allDepsOf :: "ProjectInfo \<Rightarrow> string" where
  "allDepsOf p =
     toLowerCase (join '' '' (dependencies p)) @ '' '' @
     toLowerCase (join '' '' (devDependencies p))"

definition scriptsOf :: "ProjectInfo \<Rightarrow> string" where
  "scriptsOf p = toLowerCase (join '' '' (scripts p))"

definition fileTypesOf :: "ProjectInfo \<Rightarrow> string" where
  "fileTypesOf p = join '' '' (fileTypes p)"

definition projectNameOf :: "ProjectInfo \<Rightarrow> string" where
  "projectNameOf p = toLowerCase (name p)"

text \<open>
  \<open>structure\<close> is what \<^verbatim>\<open>analyzeProjectStructure(projectInfo.workspacePath)\<close> returns:
  a rendering of the directory tree, read from the file system.
\<close>

definition performDeepProjectAnalysis :: "ProjectInfo \<Rightarrow> string \<Rightarrow> ProjectAnalysis" where
  "performDeepProjectAnalysis p structure =
     detectArchitecture
       (detectTechnologies (allDepsOf p) (fileTypesOf p)
         (detectByName (projectNameOf p) (allDepsOf p)
           (detectCategory (allDepsOf p) (fileTypesOf p) (scriptsOf p)
             (initialAnalysis structure))))"

text \<open>
  The overlay block as the specification words it: the five rules are evaluated one after
  the other, each on its own; every rule whose trigger matches appends its features, and
  the last one that matches leaves its purpose.
\<close>

definition overlaysAsSpecified :: "string \<Rightarrow> string \<Rightarrow> ProjectAnalysis \<Rightarrow> ProjectAnalysis" where
  "overlaysAsSpecified projectName allDeps a =
    (let a1 = (if isWeather projectName allDeps
               then a\<lparr> mainPurpose := weatherPurpose,
                       specialFeatures := specialFeatures a @ weatherFeatures \<rparr> else a);
         a2 = (if isTask projectName allDeps
               then a1\<lparr> mainPurpose := taskPurpose,
                        specialFeatures := specialFeatures a1 @ taskFeatures \<rparr> else a1);
         a3 = (if isShop projectName allDeps
               then a2\<lparr> mainPurpose := shopPurpose,
                        specialFeatures := specialFeatures a2 @ shopFeatures \<rparr> else a2);
         a4 = (if isBlog projectName allDeps
               then a3\<lparr> mainPurpose := blogPurpose,
                        specialFeatures := specialFeatures a3 @ blogFeatures \<rparr> else a3)
     in (if isChat projectName allDeps
         then a4\<lparr> mainPurpose := chatPurpose,
                  specialFeatures := specialFeatures a4 @ chatFeatures \<rparr> else a4))"

text \<open>The same five rules as a table, in the order of the source: trigger, purpose, features.\<close>

definition overlayRules :: "((string \<Rightarrow> string \<Rightarrow> bool) \<times> string \<times> string list) list" where
  "overlayRules =
     [(isWeather, weatherPurpose, weatherFeatures),
      (isTask, taskPurpose, taskFeatures),
      (isShop, shopPurpose, shopFeatures),
      (isBlog, blogPurpose, blogFeatures),
      (isChat, chatPurpose, chatFeatures)]"

definition firstOverlay :: "string \<Rightarrow> string \<Rightarrow> (string \<times> string list) option" where
  "firstOverlay projectName allDeps =
     map_option snd (find (\<lambda>r. fst r projectName allDeps) overlayRules)"

section \<open>The project analyzer: \<^verbatim>\<open>src/utils/projectAnalyzer.ts\<close>\<close>

definition detectFramework :: "ProjectInfo \<Rightarrow> string" where
  "detectFramework projectInfo =
    (let deps = dependencies projectInfo @ devDependencies projectInfo in
     if some deps (\<lambda>dep. includes_str dep ''next'') then ''Next.js''
     else if some deps (\<lambda>dep. includes_str dep ''nuxt'') then ''Nuxt.js''
     else if some deps (\<lambda>dep. includes_str dep ''react'') then ''React''
     else if some deps (\<lambda>dep. includes_str dep ''vue'') then ''Vue.js''
     else if some deps (\<lambda>dep. includes_str dep ''angular'') then ''Angular''
     else if some deps (\<lambda>dep. includes_str dep ''express'') then ''Express.js''
     else if some deps (\<lambda>dep. includes_str dep ''nestjs'') then ''NestJS''
     else if ''.py'' \<in> set (fileTypes projectInfo) then ''Python''
     else if length deps > 0 then ''Node.js''
     else ''Software'')"

text \<open>The record \<^verbatim>\<open>analyzeProject\<close> starts from, before anything is read.\<close>

definition initialProjectInfo :: "string \<Rightarrow> string \<Rightarrow> ProjectInfo" where
  "initialProjectInfo workspaceName path =
     \<lparr> name = workspaceName, description = None, dependencies = [], devDependencies = [],
       scripts = [], fileTypes = [], hasTests = False, license = None, repository = None,
       framework = None, workspacePath = path, version = None, author = None,
       homepage = None \<rparr>"

text \<open>
  \<^verbatim>\<open>path.basename\<close> of Node.js on a POSIX path: trailing slashes are dropped, and the
  result is what follows the last remaining slash.
\<close>

definition basename :: "string \<Rightarrow> string" where
  "basename path =
     rev (takeWhile (\<lambda>c. c \<noteq> CHR ''/'') (dropWhile (\<lambda>c. c = CHR ''/'') (rev path)))"

text \<open>
  \<^verbatim>\<open>path.extname\<close> of Node.js on a file name (no slash in it): the text from the last
  dot on; empty when there is no dot, when the last dot is the first character, and for
  the name \<^verbatim>\<open>..\<close>.
\<close>

definition extname :: "string \<Rightarrow> string" where
  "extname file =
     (let ext = CHR ''.'' # rev (takeWhile (\<lambda>c. c \<noteq> CHR ''.'') (rev file)) in
      if CHR ''.'' \<notin> set file \<or> length ext = length file \<or> file = ''..'' then [] else ext)"

section \<open>The file scanner: \<^verbatim>\<open>src/utils/fileUtils.ts\<close>\<close>

text \<open>
  The part of the file system the scanner can see. A directory lists its entries in the
  order \<^verbatim>\<open>readdirSync\<close> returns them; \<^verbatim>\<open>readdirSync\<close> throws on anything that is not a
  readable directory. \<^verbatim>\<open>statSync\<close> throws on a broken link, and tells a regular file, a
  directory, or neither (a socket, a device).
\<close>

datatype fs_node =
    RegularFile
  | Directory "(string \<times> fs_node) list"
  | UnreadableDirectory
  | BrokenLink
  | Special

definition skipped :: "string \<Rightarrow> bool" where
  "skipped file \<longleftrightarrow> startsWith file ''.'' \<or> file = ''node_modules''"

definition add :: "string \<Rightarrow> string list \<Rightarrow> string list" where
  \<comment> \<open>\<^verbatim>\<open>Set.add\<close>, the set kept in insertion order as \<^verbatim>\<open>Array.from\<close> reads it\<close>
  "add ext exts = (if ext \<in> set exts then exts else exts @ [ext])"

text \<open>
  \<^verbatim>\<open>scanDirectory\<close> and the body of its \<^verbatim>\<open>forEach\<close>. The result is the set of extensions
  so far, and whether the scan went through (\<open>True\<close>) or an exception is on its way up
  to the \<^verbatim>\<open>catch\<close> of \<^verbatim>\<open>getFileTypes\<close> (\<open>False\<close>).
\<close>

fun scanDirectory :: "fs_node \<Rightarrow> nat \<Rightarrow> string list \<Rightarrow> bool \<times> string list"
  and scanEntries :: "(string \<times> fs_node) list \<Rightarrow> nat \<Rightarrow> string list \<Rightarrow> bool \<times> string list"
where
  "scanDirectory dir depth exts =
     (if depth > 2 then (True, exts)
      else case dir of
        Directory files \<Rightarrow> scanEntries files depth exts
      | _ \<Rightarrow> (False, exts))"
| "scanEntries [] depth exts = (True, exts)"
| "scanEntries ((file, node) # files) depth exts =
     (if skipped file then scanEntries files depth exts
      else case node of
        BrokenLink \<Rightarrow> (False, exts)
      | RegularFile \<Rightarrow>
          scanEntries files depth
            (if extname file \<noteq> [] then add (extname file) exts else exts)
      | Special \<Rightarrow> scanEntries files depth exts
      | _ \<Rightarrow>
          if depth < 2 then
            (case scanDirectory node (depth + 1) exts of
               (True, exts') \<Rightarrow> scanEntries files depth exts'
             | (False, exts') \<Rightarrow> (False, exts'))
          else scanEntries files depth exts)"

definition getFileTypes :: "fs_node \<Rightarrow> string list" where
  "getFileTypes projectPath = snd (scanDirectory projectPath 0 [])"

definition isTestFile :: "string \<Rightarrow> bool" where
  "isTestFile file \<longleftrightarrow>
     includes_str (toLowerCase file) ''test'' \<or> includes_str (toLowerCase file) ''spec'' \<or>
     includes_str file ''.test.'' \<or> includes_str file ''.spec.''"

definition isTestDirectory :: "string \<Rightarrow> bool" where
  "isTestDirectory file \<longleftrightarrow>
     includes_str (toLowerCase file) ''test'' \<or> includes_str (toLowerCase file) ''spec'' \<or>
     file = ''__tests__''"

text \<open>
  \<^verbatim>\<open>checkDirectory\<close> and the callback of its \<^verbatim>\<open>some\<close>; \<open>None\<close> is an exception on its
  way up to the \<^verbatim>\<open>catch\<close> of \<^verbatim>\<open>hasTestFiles\<close>.
\<close>

fun checkDirectory :: "fs_node \<Rightarrow> nat \<Rightarrow> bool option"
  and checkEntries :: "(string \<times> fs_node) list \<Rightarrow> nat \<Rightarrow> bool option"
where
  "checkDirectory dir depth =
     (if depth > 2 then Some False
      else case dir of
        Directory files \<Rightarrow> checkEntries files depth
      | _ \<Rightarrow> None)"
| "checkEntries [] depth = Some False"
| "checkEntries ((file, node) # files) depth =
     (if skipped file then checkEntries files depth
      else case node of
        BrokenLink \<Rightarrow> None
      | RegularFile \<Rightarrow> if isTestFile file then Some True else checkEntries files depth
      | Special \<Rightarrow> checkEntries files depth
      | _ \<Rightarrow>
          if isTestDirectory file then Some True
          else (case checkDirectory node (depth + 1) of
                  None \<Rightarrow> None
                | Some True \<Rightarrow> Some True
                | Some False \<Rightarrow> checkEntries files depth))"

definition hasTestFiles :: "fs_node \<Rightarrow> bool" where
  "hasTestFiles projectPath =
     (case checkDirectory projectPath 0 of None \<Rightarrow> False | Some found \<Rightarrow> found)"

text \<open>
  The tree cut below a depth: \<open>truncateTree k root\<close> keeps the entries at depth \<open>1\<close> to
  \<open>k\<close> below the root (the root is at depth \<open>0\<close>) and empties every directory at
  depth \<open>k\<close>. A scan that reads nothing deeper than depth \<open>k\<close> cannot tell the two apart.
\<close>

fun truncateTree :: "nat \<Rightarrow> fs_node \<Rightarrow> fs_node" where
  "truncateTree 0 (Directory files) = Directory []"
| "truncateTree (Suc k) (Directory files) =
     Directory (map (\<lambda>(file, node). (file, truncateTree k node)) files)"
| "truncateTree k node = node"

section \<open>The manifest reader: \<^verbatim>\<open>ProjectAnalyzer.analyzeProject\<close>\<close>

text \<open>
  What \<^verbatim>\<open>JSON.parse\<close> returns for a manifest of the shape npm prescribes, field by field
  as \<^verbatim>\<open>analyzeProject\<close> reads it: \<open>pj_repository\<close> is the value of
  \<^verbatim>\<open>repository?.url || repository\<close> and \<open>pj_author\<close> that of \<^verbatim>\<open>author?.name || author\<close>;
  the three objects are given by their keys, \<open>None\<close> when the object is missing.
\<close>

record PackageJson =
  pj_name :: "string option"
  pj_description :: "string option"
  pj_license :: "string option"
  pj_repository :: "string option"
  pj_version :: "string option"
  pj_author :: "string option"
  pj_homepage :: "string option"
  pj_dependencies :: "string list option"
  pj_devDependencies :: "string list option"
  pj_scripts :: "string list option"

text \<open>
  The state of \<^verbatim>\<open>package.json\<close> in the workspace: not there; there, but reading or parsing
  it throws; or parsed.
\<close>

datatype manifest = Absent | Unparsable | Parsed PackageJson

definition keysOf :: "string list option \<Rightarrow> string list" where
  \<comment> \<open>\<^verbatim>\<open>Object.keys(obj || {})\<close>\<close>
  "keysOf obj = (case obj of None \<Rightarrow> [] | Some keys \<Rightarrow> keys)"

definition readManifest :: "manifest \<Rightarrow> ProjectInfo \<Rightarrow> ProjectInfo" where
  "readManifest m projectInfo =
     (case m of
        Absent \<Rightarrow> projectInfo
      | Unparsable \<Rightarrow> projectInfo
      | Parsed packageJson \<Rightarrow>
          projectInfo\<lparr>
            name := or_else (pj_name packageJson) (name projectInfo),
            description := pj_description packageJson,
            license := pj_license packageJson,
            repository := pj_repository packageJson,
            version := pj_version packageJson,
            author := pj_author packageJson,
            homepage := pj_homepage packageJson,
            dependencies := keysOf (pj_dependencies packageJson),
            devDependencies := keysOf (pj_devDependencies packageJson),
            scripts := keysOf (pj_scripts packageJson) \<rparr>)"

definition analyzeProject :: "string \<Rightarrow> manifest \<Rightarrow> fs_node \<Rightarrow> ProjectInfo" where
  "analyzeProject path m root =
     (let workspaceName = basename path;
          p1 = readManifest m (initialProjectInfo workspaceName path);
          p2 = p1\<lparr> fileTypes := getFileTypes root \<rparr>;
          p3 = p2\<lparr> hasTests := hasTestFiles root \<rparr>
      in p3\<lparr> framework := Some (detectFramework p3) \<rparr>)"

section \<open>The AI strategy: \<^verbatim>\<open>GroqService.generateReadme\<close>\<close>

text \<open>The two settings the strategy reads through \<^verbatim>\<open>ConfigManager\<close>.\<close>

record Settings =
  groqApiKey :: "string option"
  preferredModel :: "string option"

definition getGroqApiKey :: "Settings \<Rightarrow> string option" where
  "getGroqApiKey config =
     (case groqApiKey config of
        None \<Rightarrow> None
      | Some apiKey \<Rightarrow> if apiKey \<noteq> [] \<and> \<not> startsWith apiKey ''gsk_'' then None else Some apiKey)"

definition getPreferredModel :: "Settings \<Rightarrow> string" where
  "getPreferredModel config =
     (case preferredModel config of None \<Rightarrow> ''moonshotai/kimi-k2-instruct'' | Some m \<Rightarrow> m)"

definition models :: "string list" where
  "models =
     [''moonshotai/kimi-k2-instruct'', ''llama-3.3-70b-versatile'', ''llama-3.1-8b-instant'',
      ''gemma2-9b-it'']"

definition modelsToTry :: "Settings \<Rightarrow> string list" where
  "modelsToTry config =
     getPreferredModel config # filter (\<lambda>m. m \<noteq> getPreferredModel config) models"

text \<open>
  What one call of the external service comes to: \<^verbatim>\<open>fetch\<close> (or reading the error text)
  throws an error with a message, or there is a response with a status and a body. The
  body is not JSON, or it is and \<^verbatim>\<open>data?.choices?.[0]?.message?.content\<close> is a string or
  \<^verbatim>\<open>undefined\<close>.
\<close>

datatype body = NotJson | Content "string option"

datatype fetch_outcome = Rejected string | Response nat body

text \<open>A JavaScript \<^verbatim>\<open>Error\<close> with its message.\<close>

datatype error = Error string

text \<open>How the body of the \<^verbatim>\<open>try\<close> block leaves one round of the loop.\<close>

datatype attempt = Return string | Continue | Throw string

definition tryModel :: "fetch_outcome \<Rightarrow> attempt" where
  "tryModel outcome =
     (case outcome of
        Rejected message \<Rightarrow> Throw message
      | Response status b \<Rightarrow>
          if \<not> (200 \<le> status \<and> status \<le> 299) then
            (if status = 401 then Throw ''Invalid API key. Please check your Groq API key.''
             else if status = 429 then Throw ''Rate limit exceeded. Please try again later.''
             else Continue)
          else (case b of
                  NotJson \<Rightarrow> Continue
                | Content None \<Rightarrow> Continue
                | Content (Some readme) \<Rightarrow>
                    if readme = [] \<or> jsLength (trim readme) < 1000 then Continue
                    else Return (trim readme)))"

definition rethrown :: "string \<Rightarrow> bool" where
  \<comment> \<open>the test of the \<^verbatim>\<open>catch\<close> block\<close>
  "rethrown errorMessage \<longleftrightarrow>
     includes_str errorMessage ''Invalid API key'' \<or> includes_str errorMessage ''rate limit''"

text \<open>
  The loop over the models. The first component of the result lists the models that were
  called, in order (the source logs each as \<^verbatim>\<open>Using model\<close>).
\<close>

fun tryModels :: "(string \<Rightarrow> fetch_outcome) \<Rightarrow> string list \<Rightarrow> string list \<times> (error + string)" where
  "tryModels fetch [] =
     ([], Inl (Error ''All AI models failed. Check your API key and try again.''))"
| "tryModels fetch (model # rest) =
     (case tryModel (fetch model) of
        Return readme \<Rightarrow> ([model], Inr readme)
      | Continue \<Rightarrow> (case tryModels fetch rest of (used, r) \<Rightarrow> (model # used, r))
      | Throw errorMessage \<Rightarrow>
          if rethrown errorMessage then ([model], Inl (Error errorMessage))
          else (case tryModels fetch rest of (used, r) \<Rightarrow> (model # used, r)))"

text \<open>
  \<open>fetch\<close> is the external service during this call, by model. The project only enters
  the prompt that is sent.
\<close>

definition generateReadme_Groq ::
  "Settings \<Rightarrow> (string \<Rightarrow> fetch_outcome) \<Rightarrow> string list \<times> (error + string)" where
  "generateReadme_Groq config fetch =
     (case getGroqApiKey config of
        None \<Rightarrow> ([], Inl (Error ''No API key configured. Please set your Groq API key.''))
      | Some apiKey \<Rightarrow>
          if apiKey = [] then
            ([], Inl (Error ''No API key configured. Please set your Groq API key.''))
          else tryModels fetch (modelsToTry config))"

section \<open>The templated strategy: \<^verbatim>\<open>TemplateService\<close> and its helpers\<close>

text \<open>
  \<^verbatim>\<open>fs.existsSync(path.join(workspacePath, file))\<close>: whether the workspace directory has an
  entry of that name.
\<close>

definition existsSync :: "fs_node \<Rightarrow> string \<Rightarrow> bool" where
  "existsSync root file =
     (case root of Directory files \<Rightarrow> file \<in> set (map fst files) | _ \<Rightarrow> False)"

definition getInstallCommand :: "fs_node \<Rightarrow> string" where
  "getInstallCommand root =
     (if existsSync root ''pnpm-lock.yaml'' then ''pnpm install''
      else if existsSync root ''yarn.lock'' then ''yarn install''
      else ''npm install'')"

definition getStartCommand :: "ProjectInfo \<Rightarrow> fs_node \<Rightarrow> string" where
  "getStartCommand projectInfo root =
     (if ''dev'' \<in> set (scripts projectInfo) then
        (if existsSync root ''pnpm-lock.yaml'' then ''pnpm dev'' else ''npm run dev'')
      else (if existsSync root ''pnpm-lock.yaml'' then ''pnpm start'' else ''npm start''))"

text \<open>\<^verbatim>\<open>BadgeGenerator.generateBadges\<close>\<close>

definition generateBadges :: "ProjectInfo \<Rightarrow> string" where
  "generateBadges projectInfo = join ''\<newline>''
     ((if some (dependencies projectInfo) (\<lambda>dep. includes_str dep ''react'')
       then [''![React](https://img.shields.io/badge/React-18+-blue?style=flat-square&logo=react)'']
       else []) @
      (if ''.ts'' \<in> set (fileTypes projectInfo) \<or> ''.tsx'' \<in> set (fileTypes projectInfo)
       then [''![TypeScript](https://img.shields.io/badge/TypeScript-5+-blue?style=flat-square&logo=typescript)'']
       else []) @
      (if some (devDependencies projectInfo) (\<lambda>dep. includes_str dep ''vite'')
       then [''![Vite](https://img.shields.io/badge/Vite-5+-purple?style=flat-square&logo=vite)'']
       else []) @
      (if some (dependencies projectInfo) (\<lambda>dep. includes_str dep ''next'')
       then [''![Next.js](https://img.shields.io/badge/Next.js-14+-black?style=flat-square&logo=next.js)'']
       else []))"

text \<open>
  \<^verbatim>\<open>ReadmeGenerator.capitalizeTitle\<close>: \<^verbatim>\<open>title.split(/[-_\s]/)\<close> cuts at every separator
  (two separators in a row leave an empty word between them), each word gets
  \<^verbatim>\<open>word.charAt(0).toUpperCase() + word.slice(1).toLowerCase()\<close>, and the words are joined
  by one blank.
\<close>

definition isWhiteSpace :: "char \<Rightarrow> bool" where
  \<comment> \<open>the ASCII characters that \<^verbatim>\<open>\s\<close> matches\<close>
  "isWhiteSpace c \<longleftrightarrow> c \<in> set [CHR 0x09, CHR 0x0A, CHR 0x0B, CHR 0x0C, CHR 0x0D, CHR '' '']"

definition isSeparator :: "char \<Rightarrow> bool" where
  "isSeparator c \<longleftrightarrow> c = CHR ''-'' \<or> c = CHR ''_'' \<or> isWhiteSpace c"

fun split :: "(char \<Rightarrow> bool) \<Rightarrow> string \<Rightarrow> string list" where
  "split sep [] = [[]]"
| "split sep (c # cs) =
     (if sep c then [] # split sep cs
      else case split sep cs of [] \<Rightarrow> [[c]] | word # rest \<Rightarrow> (c # word) # rest)"

definition capitalizeWord :: "string \<Rightarrow> string" where
  "capitalizeWord word = toUpperCase (take 1 word) @ toLowerCase (drop 1 word)"

definition capitalizeTitle :: "string \<Rightarrow> string" where
  "capitalizeTitle title = join '' '' (map capitalizeWord (split isSeparator title))"

text \<open>\<^verbatim>\<open>ReadmeGenerator.generateFeatures\<close> and \<^verbatim>\<open>generateTechStack\<close>\<close>

definition commonFeatures :: "string list" where
  "commonFeatures =
     [[CHR 0xF0, CHR 0x9F, CHR 0x8E, CHR 0xA8] @ '' **Modern UI/UX** - Clean and intuitive user interface'',
      [CHR 0xF0, CHR 0x9F, CHR 0x93, CHR 0xB1] @ '' **Responsive Design** - Works seamlessly on desktop and mobile devices'',
      [CHR 0xE2, CHR 0x9A, CHR 0xA1] @ '' **Fast Performance** - Optimized for speed and efficiency'',
      [CHR 0xF0, CHR 0x9F, CHR 0x94, CHR 0xA7] @ '' **Easy Configuration** - Simple setup and customization'']"

definition reactFeatures :: "string list" where
  "reactFeatures =
     [[CHR 0xF0, CHR 0x9F, CHR 0x94, CHR 0x84] @ '' **Real-time Updates** - Dynamic content updates'',
      [CHR 0xF0, CHR 0x9F, CHR 0x8E, CHR 0xAF] @ '' **Component-based Architecture** - Reusable and maintainable components'',
      [CHR 0xF0, CHR 0x9F, CHR 0x93, CHR 0x8A] @ '' **State Management** - Efficient state handling'',
      [CHR 0xF0, CHR 0x9F, CHR 0x8C, CHR 0x93] @ '' **Theme Support** - Light and dark mode toggle'']"

definition nodeFeatures :: "string list" where
  "nodeFeatures =
     [[CHR 0xF0, CHR 0x9F, CHR 0x94, CHR 0x90] @ '' **Secure Authentication** - JWT-based authentication'',
      [CHR 0xF0, CHR 0x9F, CHR 0x93, CHR 0xA1] @ '' **RESTful API** - Well-structured API endpoints'',
      [CHR 0xF0, CHR 0x9F, CHR 0x92, CHR 0xBE] @ '' **Database Integration** - Efficient data management'',
      [CHR 0xF0, CHR 0x9F, CHR 0x94, CHR 0x92] @ '' **Input Validation** - Secure data handling'']"

definition generateFeatures :: "ProjectInfo \<Rightarrow> string" where
  "generateFeatures projectInfo = join ''\<newline>''
     (commonFeatures @
      (if some (dependencies projectInfo) (\<lambda>dep. includes_str dep ''react'')
       then reactFeatures else []) @
      (if some (dependencies projectInfo)
            (\<lambda>dep. includes_str dep ''express'' \<or> includes_str dep ''nestjs'')
       then nodeFeatures else []) @
      (if hasTests projectInfo
       then [[CHR 0xE2, CHR 0x9C, CHR 0x85] @ '' **Comprehensive Testing** - Full test coverage'']
       else []))"

definition generateTechStack :: "ProjectInfo \<Rightarrow> string" where
  "generateTechStack projectInfo =
     ''### Frontend\<newline>'' @
     (if some (dependencies projectInfo) (\<lambda>dep. includes_str dep ''react'')
      then ''- **Framework**: React with '' @
           (if some (devDependencies projectInfo) (\<lambda>dep. includes_str dep ''vite'')
            then ''Vite'' else ''Create React App'') @ ''\<newline>''
      else []) @
     (if ''.ts'' \<in> set (fileTypes projectInfo) \<or> ''.tsx'' \<in> set (fileTypes projectInfo)
      then ''- **Language**: TypeScript\<newline>''
      else ''- **Language**: JavaScript\<newline>'') @
     (if some (dependencies projectInfo)
           (\<lambda>dep. includes_str dep ''tailwind'' \<or> includes_str dep ''tailwindcss'')
      then ''- **Styling**: Tailwind CSS\<newline>'' else []) @
     (case filter (\<lambda>dep. includes_str dep ''mui'' \<or> includes_str dep ''antd'' \<or>
                         includes_str dep ''chakra'' \<or> includes_str dep ''mantine'')
             (dependencies projectInfo) of
        [] \<Rightarrow> []
      | lib # _ \<Rightarrow> ''- **UI Components**: '' @ lib @ ''\<newline>'') @
     ''\<newline>### Development Tools\<newline>'' @
     (if some (devDependencies projectInfo) (\<lambda>dep. includes_str dep ''vite'')
      then ''- **Build Tool**: Vite\<newline>'' else []) @
     (if some (devDependencies projectInfo) (\<lambda>dep. includes_str dep ''eslint'')
      then ''- **Linter**: ESLint\<newline>'' else [])"

text \<open>The private helpers of \<^verbatim>\<open>TemplateService\<close>\<close>

definition isReact :: "ProjectInfo \<Rightarrow> bool" where
  "isReact projectInfo \<longleftrightarrow>
     some (dependencies projectInfo)
       (\<lambda>dep. includes_str dep ''react'' \<or> includes_str dep ''next'')"

definition isVite :: "ProjectInfo \<Rightarrow> bool" where
  "isVite projectInfo \<longleftrightarrow>
     some (dependencies projectInfo) (\<lambda>dep. includes_str dep ''vite'') \<or>
     some (devDependencies projectInfo) (\<lambda>dep. includes_str dep ''vite'')"

definition generatePrerequisites :: "ProjectInfo \<Rightarrow> string" where
  "generatePrerequisites projectInfo =
     (if ''.py'' \<in> set (fileTypes projectInfo) then
        ''- Python 3.8 or higher\<newline>'' @
        ''- pip package manager''
      else if some (dependencies projectInfo) (\<lambda>dep. includes_str dep ''react'') then
        ''- Node.js 18.0 or higher\<newline>'' @
        ''- npm, pnpm, or yarn package manager''
      else
        ''- Node.js 16.0 or higher\<newline>'' @
        ''- npm package manager'')"

definition generateEnvironmentSetup :: "fs_node \<Rightarrow> string" where
  "generateEnvironmentSetup root =
     (if existsSync root ''.env.example'' then
        ''\<newline>'' @
        ''3. Set up environment variables:\<newline>'' @
        ''    ```bash\<newline>'' @
        ''    cp .env.example .env\<newline>'' @
        ''    # Edit .env with your configuration\<newline>'' @
        ''    ```\<newline>''
      else [])"

definition generateUsageInstructions :: "ProjectInfo \<Rightarrow> string" where
  "generateUsageInstructions projectInfo =
     (if some (dependencies projectInfo) (\<lambda>dep. includes_str dep ''react'') then
        ''- **Development**: Start the development server and begin coding\<newline>'' @
        ''- **Components**: Edit components in the `src` folder\<newline>'' @
        ''- **Styling**: Customize styles and themes\<newline>'' @
        ''- **Build**: Create production builds for deployment\<newline>'' @
        ''- **Testing**: Run tests to ensure code quality''
      else
        ''- **Development**: Use the available scripts for development\<newline>'' @
        ''- **Configuration**: Customize settings as needed\<newline>'' @
        ''- **Deployment**: Build and deploy using the provided scripts'')"

definition generateAPIDocumentation :: "string \<Rightarrow> string" where
  "generateAPIDocumentation repo =
     ''\<newline>'' @
     ''## '' @ [CHR 0xF0, CHR 0x9F, CHR 0x8C, CHR 0x90] @ '' API Documentation\<newline>'' @
     ''\<newline>'' @
     ''This application integrates with various APIs and services:\<newline>'' @
     ''- **Authentication**: JWT-based authentication system\<newline>'' @
     ''- **Data Management**: RESTful API endpoints\<newline>'' @
     ''- **Real-time Updates**: WebSocket connections for live data\<newline>'' @
     ''\<newline>'' @
     ''For detailed API documentation, visit the [API docs]('' @ repo @
     ''/docs) or check the `/docs` folder.\<newline>''"

text \<open>
  The lookup \<^verbatim>\<open>scriptDescriptions[script] || "Custom script"\<close>, on the eight keys the
  object is written with.
\<close>

definition scriptDescriptions :: "string \<rightharpoonup> string" where
  "scriptDescriptions = map_of
     [(''dev'', ''Start development server with hot reload''),
      (''start'', ''Start production server''),
      (''build'', ''Build the application for production''),
      (''test'', ''Run test suite''),
      (''lint'', ''Lint code and fix issues''),
      (''preview'', ''Preview production build locally''),
      (''format'', ''Format code with Prettier''),
      (''type-check'', ''Run TypeScript type checking'')]"

definition generateScriptDocumentation :: "ProjectInfo \<Rightarrow> fs_node \<Rightarrow> string" where
  "generateScriptDocumentation projectInfo root = join ''\<newline>''
     (map (\<lambda>script.
        ''- `'' @
        (if existsSync root ''pnpm-lock.yaml'' then ''pnpm '' @ script else ''npm run '' @ script) @
        ''` - '' @ or_else (scriptDescriptions script) ''Custom script'')
      (scripts projectInfo))"

definition generateAcknowledgments :: "ProjectInfo \<Rightarrow> string" where
  "generateAcknowledgments projectInfo = join ''\<newline>''
     ((if some (dependencies projectInfo) (\<lambda>dep. includes_str dep ''react'')
       then [''- [React](https://reactjs.org/) for the amazing UI library''] else []) @
      (if some (devDependencies projectInfo) (\<lambda>dep. includes_str dep ''vite'')
       then [''- [Vite](https://vitejs.dev/) for lightning-fast development''] else []) @
      (if some (dependencies projectInfo) (\<lambda>dep. includes_str dep ''tailwind'')
       then [''- [Tailwind CSS](https://tailwindcss.com/) for utility-first styling''] else []) @
      [''- Open source community for continuous inspiration''])"

text \<open>
  \<^verbatim>\<open>repo.match(/github\.com\/([^\/]+)/)\<close>: the leftmost \<^verbatim>\<open>github.com/\<close> that is followed by
  a character other than a slash, and the characters from there up to the next slash.
\<close>

fun matchGitHub :: "string \<Rightarrow> string option" where
  "matchGitHub [] = None"
| "matchGitHub (c # cs) =
     (if prefix ''github.com/'' (c # cs) \<and>
         takeWhile (\<lambda>x. x \<noteq> CHR ''/'') (drop 11 (c # cs)) \<noteq> []
      then Some (takeWhile (\<lambda>x. x \<noteq> CHR ''/'') (drop 11 (c # cs)))
      else matchGitHub cs)"

definition extractGitHubUsername :: "string \<Rightarrow> string" where
  "extractGitHubUsername repo =
     (case matchGitHub repo of Some user \<Rightarrow> ''@'' @ user | None \<Rightarrow> ''@username'')"

text \<open>\<^verbatim>\<open>s.replace(pattern, replacement)\<close> with a string pattern: the first occurrence only.\<close>

fun replaceFirst :: "string \<Rightarrow> string \<Rightarrow> string \<Rightarrow> string" where
  "replaceFirst pattern replacement [] = (if pattern = [] then replacement else [])"
| "replaceFirst pattern replacement (c # cs) =
     (if prefix pattern (c # cs) then replacement @ drop (length pattern) (c # cs)
      else c # replaceFirst pattern replacement cs)"

text \<open>
  \<^verbatim>\<open>TemplateService.generateReadme\<close>: the template literal, piece by piece. \<open>root\<close> is the
  workspace directory and \<open>folderStructure\<close> the text that
  \<^verbatim>\<open>ReadmeGenerator.generateFolderStructure(projectInfo.workspacePath, 3)\<close> returns for it.
\<close>

definition generateReadme_Template :: "ProjectInfo \<Rightarrow> fs_node \<Rightarrow> string \<Rightarrow> string" where
  "generateReadme_Template projectInfo root folderStructure = concat
    [''# '',
     (if startsWith (name projectInfo) ''#'' then name projectInfo
      else [CHR 0xF0, CHR 0x9F, CHR 0x9A, CHR 0x80] @ '' '' @ capitalizeTitle (name projectInfo)),
     ''\<newline>\<newline>'',
     or_else (description projectInfo)
       ''A modern application built with cutting-edge technologies.'',
     ''\<newline>\<newline>'',
     generateBadges projectInfo,
     ''\<newline>\<newline>'' @
     ''## '' @ [CHR 0xF0, CHR 0x9F, CHR 0x9A, CHR 0x80] @ '' Live Demo\<newline>'',
     ifTruthy (homepage projectInfo)
       (\<lambda>h. ''- **Application**: ['' @ h @ '']('' @ h @ '')'')
       ''- Live demo will be available soon'',
     ''\<newline>\<newline>'' @
     ''## '' @ [CHR 0xF0, CHR 0x9F, CHR 0x93, CHR 0x8B] @ '' Table of Contents\<newline>'' @
     ''- [Features](#-features)\<newline>'' @
     ''- [Tech Stack](#-tech-stack)\<newline>'' @
     ''- [Installation](#-installation)\<newline>'' @
     ''- [Usage](#-usage)\<newline>'',
     (if truthy (repository projectInfo) then ''- [API Documentation](#-api-documentation)'' else []),
     ''\<newline>'' @
     ''- [Project Structure](#-project-structure)\<newline>'' @
     ''- [Contributing](#-contributing)\<newline>'' @
     ''- [License](#-license)\<newline>'' @
     ''- [Contact](#-contact)\<newline>\<newline>'' @
     ''## '' @ [CHR 0xE2, CHR 0x9C, CHR 0xA8] @ '' Features\<newline>'' @
     ''\<newline>'',
     generateFeatures projectInfo,
     ''\<newline>\<newline>'' @
     ''## '' @ [CHR 0xF0, CHR 0x9F, CHR 0x9B, CHR 0xA0] @ '' Tech Stack\<newline>'' @
     ''\<newline>'',
     generateTechStack projectInfo,
     ''\<newline>\<newline>'' @
     ''## '' @ [CHR 0xF0, CHR 0x9F, CHR 0x93, CHR 0xA6] @ '' Installation\<newline>'' @
     ''\<newline>'' @
     ''### Prerequisites\<newline>'',
     generatePrerequisites projectInfo,
     ''\<newline>\<newline>'' @
     ''### Installation\<newline>\<newline>'' @
     ''1. Clone the repository:\<newline>'' @
     ''    ```bash\<newline>'' @
     ''    git clone '',
     or_else (repository projectInfo) ''https://github.com/username/repository.git'',
     ''\<newline>'' @
     ''    cd '',
     name projectInfo,
     ''\<newline>'' @
     ''    ```\<newline>\<newline>'' @
     ''2. Install dependencies:\<newline>'' @
     ''    ```bash\<newline>'' @
     ''    '',
     getInstallCommand root,
     ''\<newline>'' @
     ''    ```\<newline>\<newline>'',
     generateEnvironmentSetup root,
     ''\<newline>\<newline>'' @
     ''3. Run the project:\<newline>'' @
     ''    ```bash\<newline>'' @
     ''    '',
     getStartCommand projectInfo root,
     ''\<newline>'' @
     ''    ```\<newline>\<newline>'' @
     ''4. Open your browser:\<newline>'' @
     ''    ```bash\<newline>'' @
     ''    Navigate to `'',
     (if isReact projectInfo then ''http://localhost:3000''
      else if isVite projectInfo then ''http://localhost:5173''
      else ''http://localhost:3000''),
     ''`\<newline>'' @
     ''    ```\<newline>\<newline>'' @
     ''## '' @ [CHR 0xF0, CHR 0x9F, CHR 0x8E, CHR 0xAF] @ '' Usage\<newline>'' @
     ''\<newline>'',
     generateUsageInstructions projectInfo,
     ''\<newline>\<newline>'',
     ifTruthy (repository projectInfo) generateAPIDocumentation [],
     ''\<newline>\<newline>'' @
     ''## '' @ [CHR 0xF0, CHR 0x9F, CHR 0x93, CHR 0x81] @ '' Project Structure\<newline>'' @
     ''\<newline>'' @
     ''```\<newline>'',
     folderStructure,
     ''\<newline>'' @
     ''```\<newline>\<newline>'' @
     ''## '' @ [CHR 0xF0, CHR 0x9F, CHR 0x93, CHR 0x9D] @ '' Available Scripts\<newline>'' @
     ''\<newline>'',
     generateScriptDocumentation projectInfo root,
     ''\<newline>\<newline>'' @
     ''## '' @ [CHR 0xF0, CHR 0x9F, CHR 0xA4, CHR 0x9D] @ '' Contributing\<newline>'' @
     ''\<newline>'' @
     ''1. Fork the repository\<newline>'' @
     ''2. Create your feature branch (`git checkout -b feature/amazing-feature`)\<newline>'' @
     ''3. Commit your changes (`git commit -m '' @ [CHR 0x27] @ ''Add some amazing feature'' @ [CHR 0x27] @ ''`)\<newline>'' @
     ''4. Push to the branch (`git push origin feature/amazing-feature`)\<newline>'' @
     ''5. Open a Pull Request\<newline>\<newline>'' @
     ''## '' @ [CHR 0xF0, CHR 0x9F, CHR 0x93, CHR 0x84] @ '' License\<newline>'' @
     ''\<newline>'',
     ifTruthy (license projectInfo)
       (\<lambda>l. ''This project is licensed under the '' @ l @
            '' License - see the [LICENSE](LICENSE) file for details.'')
       ''This project is licensed under the MIT License - see the [LICENSE](LICENSE) file for details.'',
     ''\<newline>\<newline>'' @
     ''## '' @ [CHR 0xF0, CHR 0x9F, CHR 0x91, CHR 0xA8, CHR 0xE2, CHR 0x80, CHR 0x8D, CHR 0xF0, CHR 0x9F, CHR 0x92, CHR 0xBB] @ '' Contact\<newline>'' @
     ''\<newline>'',
     ifTruthy (author projectInfo) (\<lambda>a. ''**'' @ a @ ''**'') ''**Developer**'',
     ''\<newline>'',
     ifTruthy (repository projectInfo)
       (\<lambda>r. ''- GitHub: ['' @ extractGitHubUsername r @ '']('' @
            replaceFirst ''.git'' [] r @ '')'')
       ''- GitHub: [@username](https://github.com/username)'',
     ''\<newline>'' @
     ''- Email: [developer@email.com](mailto:developer@email.com)\<newline>'' @
     ''\<newline>'' @
     ''## '' @ [CHR 0xF0, CHR 0x9F, CHR 0x99, CHR 0x8F] @ '' Acknowledgments\<newline>'' @
     ''\<newline>'',
     generateAcknowledgments projectInfo,
     ''\<newline>\<newline>'' @
     ''---\<newline>\<newline>'' @
     ''<div align='' @ [CHR 0x22] @ ''center'' @ [CHR 0x22] @ ''>\<newline>'' @
     ''  Made with '' @ [CHR 0xE2, CHR 0x9D, CHR 0xA4, CHR 0xEF, CHR 0xB8, CHR 0x8F] @ '' by '',
     or_else (author projectInfo) ''Developer'',
     ''\<newline>'' @
     ''</div>\<newline>'']"

section \<open>The orchestrator: \<^verbatim>\<open>IntelliREADMEExtension.generateWithAI\<close>\<close>

text \<open>
  What the user gets to see on the way: a warning message, and the dialog of
  \<^verbatim>\<open>ConfigManager.manageApiKey\<close>. That dialog is awaited outside any \<^verbatim>\<open>try\<close>; the
  argument \<open>manageApiKey\<close> is \<open>None\<close> when it completes and the error when it throws.
\<close>

datatype ui_event = ShowWarningMessage string | ManageApiKey

definition generateWithAI ::
  "Settings \<Rightarrow> (string \<Rightarrow> fetch_outcome) \<Rightarrow> error option \<Rightarrow> ProjectInfo \<Rightarrow> fs_node \<Rightarrow> string
     \<Rightarrow> ui_event list \<times> (error + string)" where
  "generateWithAI config fetch manageApiKey projectInfo root folderStructure =
     (case snd (generateReadme_Groq config fetch) of
        Inr readme \<Rightarrow> ([], Inr readme)
      | Inl (Error errorMessage) \<Rightarrow>
          if includes_str errorMessage ''Invalid API key'' then
            ([ShowWarningMessage ([CHR 0xE2, CHR 0x9D, CHR 0x8C] @ '' Invalid API key. Using templates instead.''), ManageApiKey],
             case manageApiKey of
               Some e \<Rightarrow> Inl e
             | None \<Rightarrow> Inr (generateReadme_Template projectInfo root folderStructure))
          else if includes_str errorMessage ''rate limit'' then
            ([ShowWarningMessage ([CHR 0xE2, CHR 0x9A, CHR 0xA0, CHR 0xEF, CHR 0xB8, CHR 0x8F] @ '' Rate limit exceeded. Using templates instead.'')],
             Inr (generateReadme_Template projectInfo root folderStructure))
          else
            ([ShowWarningMessage (''AI generation failed: '' @ errorMessage @ ''. Using templates.'')],
             Inr (generateReadme_Template projectInfo root folderStructure)))"

section \<open>Notions used in the properties\<close>

text \<open>A project that matches none of the seven category rules of the classifier.\<close>

definition matchesNoCategoryRule :: "ProjectInfo \<Rightarrow> bool" where
  "matchesNoCategoryRule p \<longleftrightarrow>
     \<not> (isBackend (allDepsOf p) (fileTypesOf p) (scriptsOf p) \<or>
        includes_str (allDepsOf p) ''react'' \<or>
        includes_str (allDepsOf p) ''vue'' \<or>
        includes_str (allDepsOf p) ''angular'' \<or> includes_str (allDepsOf p) ''@angular'' \<or>
        includes_str (allDepsOf p) ''react-native'' \<or> includes_str (allDepsOf p) ''expo'' \<or>
        includes_str (allDepsOf p) ''electron'' \<or>
        isPython (allDepsOf p) (fileTypesOf p))"

text \<open>The message of the error the loop ends with when no model is left.\<close>

definition exhaustedMessage :: string where
  "exhaustedMessage = ''All AI models failed. Check your API key and try again.''"

text \<open>A call that makes the loop go on to the next model.\<close>

definition skipsModel :: "fetch_outcome \<Rightarrow> bool" where
  "skipsModel outcome =
     (case tryModel outcome of
        Return readme \<Rightarrow> False
      | Continue \<Rightarrow> True
      | Throw errorMessage \<Rightarrow> \<not> rethrown errorMessage)"

text \<open>
  A call that does not give a usable document, in the words of the specification: an
  error that the \<^verbatim>\<open>catch\<close> block does not rethrow, a status that is neither a success
  nor 401 nor 429, a body that is not JSON, no content, or content whose trimmed length
  (in UTF-16 code units) is below 1000.
\<close>

definition insufficient :: "fetch_outcome \<Rightarrow> bool" where
  "insufficient outcome =
     (case outcome of
        Rejected message \<Rightarrow> \<not> rethrown message
      | Response status b \<Rightarrow>
          if 200 \<le> status \<and> status \<le> 299 then
            (case b of
               NotJson \<Rightarrow> True
             | Content None \<Rightarrow> True
             | Content (Some readme) \<Rightarrow> jsLength (trim readme) < 1000)
          else status \<noteq> 401 \<and> status \<noteq> 429)"

section \<open>Example inputs\<close>

definition expressReact :: ProjectInfo where
  "expressReact =
     (initialProjectInfo ''fullstack'' ''/home/dev/fullstack'')
       \<lparr> dependencies := [''express'', ''react''] \<rparr>"

definition weatherChat :: ProjectInfo where
  "weatherChat = initialProjectInfo ''weather-chat'' ''/home/dev/weather-chat''"

definition lodashOnly :: ProjectInfo where
  "lodashOnly =
     (initialProjectInfo ''helpers'' ''/home/dev/helpers'') \<lparr> dependencies := [''lodash''] \<rparr>"

definition nextOnly :: ProjectInfo where
  "nextOnly =
     (initialProjectInfo ''site'' ''/home/dev/site'') \<lparr> dependencies := [''next''] \<rparr>"

definition emptyProject :: ProjectInfo where
  "emptyProject = initialProjectInfo ''notes'' ''/home/dev/notes''"

definition withKey :: Settings where
  "withKey =
     \<lparr> groqApiKey = Some ''gsk_0123456789abcdefghijklmnopqrstuvwxyzABCD'',
       preferredModel = None \<rparr>"

definition noKey :: Settings where
  "noKey = \<lparr> groqApiKey = None, preferredModel = None \<rparr>"

definition shortReadme :: string where
  "shortReadme = replicate 50 CHR ''a''"

definition longReadme :: string where
  "longReadme = replicate 1000 CHR ''a''"

definition readme2000 :: string where
  "readme2000 = replicate 2000 CHR ''b''"

definition rocket :: string where
  \<comment> \<open>the rocket emoji U+1F680: four bytes, two UTF-16 code units\<close>
  "rocket = [CHR 0xF0, CHR 0x9F, CHR 0x9A, CHR 0x80]"

definition emojiReadme :: string where
  "emojiReadme = concat (replicate 400 rocket)"

definition paddedReadme :: string where
  "paddedReadme = replicate 500 CHR ''a'' @ replicate 1500 CHR '' ''"

definition rateLimitedFirst :: "string \<Rightarrow> fetch_outcome" where
  "rateLimitedFirst model =
     (if model = ''moonshotai/kimi-k2-instruct'' then Response 429 NotJson
      else Response 200 (Content (Some longReadme)))"

definition shortThenLong :: "string \<Rightarrow> fetch_outcome" where
  "shortThenLong model =
     (if model = ''moonshotai/kimi-k2-instruct'' then Response 200 (Content (Some shortReadme))
      else Response 200 (Content (Some readme2000)))"

definition shortThenPadded :: "string \<Rightarrow> fetch_outcome" where
  "shortThenPadded model =
     (if model = ''moonshotai/kimi-k2-instruct'' then Response 200 (Content (Some shortReadme))
      else if model = ''llama-3.3-70b-versatile'' then Response 200 (Content (Some paddedReadme))
      else Response 503 NotJson)"

definition deepTree :: fs_node where
  "deepTree =
     Directory [(''src'', Directory [(''lib'', Directory [(''index.spec.ts'', RegularFile)])])]"

definition fourLevels :: fs_node where
  "fourLevels =
     Directory [(''src'', Directory [(''lib'', Directory
       [(''index.spec.ts'', RegularFile),
        (''deep'', Directory [(''main.py'', RegularFile)])])])]"

definition myApp :: ProjectInfo where
  "myApp = initialProjectInfo ''my-app'' ''/home/dev/my-app''"


section \<open>Properties\<close>

subsection \<open>Strings\<close>

lemma sublist_join: "x \<in> set xs \<Longrightarrow> sublist x (join sep xs)"
proof (induction sep xs rule: join.induct)
  case (3 sep a b ys)
  show ?case
  proof (cases "x = a")
    case True
    then show ?thesis using sublist_appendI [of a "[]" "sep @ join sep (b # ys)"] by simp
  next
    case False
    with 3 have "sublist x (join sep (b # ys))" by simp
    then show ?thesis by (simp add: sublist_append)
  qed
qed simp_all

lemma includes_str_trans:
  "includes_str s t \<Longrightarrow> includes_str t u \<Longrightarrow> includes_str s u"
  unfolding includes_str_def by (rule sublist_order.order.trans)

lemma includes_str_toLowerCase:
  assumes "includes_str s t"
  shows "includes_str (toLowerCase s) (toLowerCase t)"
proof -
  obtain ps ss where "s = ps @ t @ ss"
    using assms by (auto simp: includes_str_def sublist_def)
  then have "toLowerCase s = toLowerCase ps @ toLowerCase t @ toLowerCase ss"
    by (simp add: toLowerCase_def)
  then show ?thesis by (simp add: includes_str_def)
qed

lemma includes_str_join: "x \<in> set xs \<Longrightarrow> includes_str (join sep xs) x"
  by (simp add: includes_str_def sublist_join)

lemma includes_str_appendI1: "includes_str s x \<Longrightarrow> includes_str (s @ t) x"
  unfolding includes_str_def by (simp add: sublist_append)

lemma includes_str_appendI2: "includes_str t x \<Longrightarrow> includes_str (s @ t) x"
  unfolding includes_str_def by (simp add: sublist_append)

subsection \<open>The classifier\<close>

lemma dependency_in_allDeps:
  assumes "x \<in> set (dependencies p)"
  shows "includes_str (allDepsOf p) (toLowerCase x)"
  unfolding allDepsOf_def
  by (intro includes_str_appendI1 includes_str_toLowerCase includes_str_join assms)

lemma devDependency_in_allDeps:
  assumes "x \<in> set (devDependencies p)"
  shows "includes_str (allDepsOf p) (toLowerCase x)"
  unfolding allDepsOf_def
  by (intro includes_str_appendI2 includes_str_toLowerCase includes_str_join assms)

lemma signal_in_allDeps:
  assumes "dep \<in> set (dependencies p @ devDependencies p)" and "includes_str dep w"
  shows "includes_str (allDepsOf p) (toLowerCase w)"
proof -
  have "includes_str (allDepsOf p) (toLowerCase dep)"
    using assms(1) dependency_in_allDeps devDependency_in_allDeps by auto
  then show ?thesis
    using includes_str_toLowerCase [OF assms(2)] by (rule includes_str_trans)
qed

lemma some_signal_in_allDeps:
  assumes "some (dependencies p @ devDependencies p) (\<lambda>dep. includes_str dep w)"
    and "toLowerCase w = w"
  shows "includes_str (allDepsOf p) w"
  using assms signal_in_allDeps [of _ p w] by (auto simp: some_def list_ex_iff)

lemma py_in_fileTypes:
  "''.py'' \<in> set (fileTypes p) \<Longrightarrow> includes_str (fileTypesOf p) ''.py''"
  unfolding fileTypesOf_def by (rule includes_str_join)

lemma mainPurpose_detectTechnologies [simp]:
  "mainPurpose (detectTechnologies d f a) = mainPurpose a"
  by (simp add: detectTechnologies_def Let_def)

lemma mainPurpose_detectArchitecture [simp]: "mainPurpose (detectArchitecture a) = mainPurpose a"
  by (simp add: detectArchitecture_def)

lemma projectType_detectByName [simp]: "projectType (detectByName n d a) = projectType a"
  by (simp add: detectByName_def)

lemma projectType_detectTechnologies [simp]:
  "projectType (detectTechnologies d f a) = projectType a"
  by (simp add: detectTechnologies_def Let_def)

lemma projectType_detectArchitecture [simp]: "projectType (detectArchitecture a) = projectType a"
  by (simp add: detectArchitecture_def)

lemma detectCategory_no_rule:
  "matchesNoCategoryRule p \<Longrightarrow>
   detectCategory (allDepsOf p) (fileTypesOf p) (scriptsOf p) a = a"
  by (simp add: matchesNoCategoryRule_def detectCategory_def)

lemma mainPurpose_detectByName_nonempty:
  "mainPurpose a \<noteq> [] \<Longrightarrow> mainPurpose (detectByName n d a) \<noteq> []"
  by (simp add: detectByName_def weatherPurpose_def taskPurpose_def shopPurpose_def
      blogPurpose_def chatPurpose_def)

lemma literal_lower:
  "toLowerCase ''react'' = ''react''" "toLowerCase ''vue'' = ''vue''"
  "toLowerCase ''angular'' = ''angular''" "toLowerCase ''express'' = ''express''"
  "toLowerCase ''nestjs'' = ''nestjs''"
  by (simp_all add: toLowerCase_def toLowerCase_char_def)

lemma detectFramework_no_rule:
  assumes "matchesNoCategoryRule p"
    and "\<not> some (dependencies p @ devDependencies p)
             (\<lambda>dep. includes_str dep ''next'' \<or> includes_str dep ''nuxt'')"
  shows "detectFramework p =
           (if dependencies p @ devDependencies p = [] then ''Software'' else ''Node.js'')"
proof -
  let ?deps = "dependencies p @ devDependencies p"
  have no: "\<not> includes_str (allDepsOf p) w"
    if "w \<in> {''react'', ''vue'', ''angular'', ''express'', ''nestjs''}" for w
    using that assms(1) by (auto simp: matchesNoCategoryRule_def isBackend_def)
  have s: "\<not> some ?deps (\<lambda>dep. includes_str dep w)"
    if "w \<in> {''react'', ''vue'', ''angular'', ''express'', ''nestjs''}" for w
    using no [OF that] some_signal_in_allDeps [of p w] that literal_lower by auto
  have n: "\<not> some ?deps (\<lambda>dep. includes_str dep ''next'')"
    "\<not> some ?deps (\<lambda>dep. includes_str dep ''nuxt'')"
    using assms(2) by (auto simp: some_def list_ex_iff)
  have py: "''.py'' \<notin> set (fileTypes p)"
    using assms(1) py_in_fileTypes [of p] by (auto simp: matchesNoCategoryRule_def isPython_def)
  show ?thesis
    unfolding detectFramework_def Let_def
    using s n py by simp
qed

lemma detectByName_first_match:
  "detectByName n d a =
     (case firstOverlay n d of
        None \<Rightarrow> a
      | Some (purpose, features) \<Rightarrow>
          a\<lparr> mainPurpose := purpose, specialFeatures := specialFeatures a @ features \<rparr>)"
  by (simp add: detectByName_def firstOverlay_def overlayRules_def)

lemma specialFeatures_detectTechnologies:
  assumes "specialFeatures b = []"
  shows "specialFeatures (detectTechnologies d f a) =
     specialFeatures a @ specialFeatures (detectTechnologies d f b)"
proof -
  let ?c1 = "includes_str d ''typescript'' \<or> includes_str f ''.ts'' \<or> includes_str f ''.tsx''"
  let ?c2 = "includes_str d ''tailwind''"
  let ?c3 = "includes_str d ''prisma'' \<or> includes_str d ''mongoose'' \<or>
             includes_str d ''sequelize''"
  let ?c4 = "includes_str d ''jest'' \<or> includes_str d ''vitest'' \<or> includes_str d ''cypress''"
  have "specialFeatures (detectTechnologies d f x) =
      specialFeatures x @
      (if ?c1 then [''Type safety'', ''Enhanced development experience''] else []) @
      (if ?c2 then [''Utility-first styling'', ''Responsive design system''] else []) @
      (if ?c3 then [''Database integration'', ''Data modeling''] else []) @
      (if ?c4 then [''Automated testing'', ''Quality assurance''] else [])" for x
    by (cases ?c1; cases ?c2; cases ?c3; cases ?c4)
      (simp_all add: detectTechnologies_def Let_def)
  from this [of a] this [of b] assms show ?thesis by simp
qed

lemma specialFeatures_detectArchitecture [simp]:
  "specialFeatures (detectArchitecture a) = specialFeatures a"
  by (simp add: detectArchitecture_def)

lemma projectType_performDeepProjectAnalysis:
  "projectType (performDeepProjectAnalysis p s) =
     projectType (detectCategory (allDepsOf p) (fileTypesOf p) (scriptsOf p) (initialAnalysis s))"
  by (simp add: performDeepProjectAnalysis_def)

lemma mainPurpose_performDeepProjectAnalysis:
  "mainPurpose (performDeepProjectAnalysis p s) =
     mainPurpose (detectByName (projectNameOf p) (allDepsOf p)
       (detectCategory (allDepsOf p) (fileTypesOf p) (scriptsOf p) (initialAnalysis s)))"
  by (simp add: performDeepProjectAnalysis_def)

text \<open>
  \<^bold>\<open>C5.\<close> Whenever the dependency names include both \<^verbatim>\<open>express\<close> and \<^verbatim>\<open>react\<close>, the
  classifier returns the category "Backend API": the react signal is there (the string
  the react rule searches contains \<^verbatim>\<open>react\<close>), but the backend rule is tested first.
\<close>

theorem express_beats_react:
  assumes "''express'' \<in> set (dependencies p)" and "''react'' \<in> set (dependencies p)"
  shows "includes_str (allDepsOf p) ''react'' \<and>
         projectType (performDeepProjectAnalysis p structure) = ''Backend API''"
proof -
  have e: "includes_str (allDepsOf p) ''express''"
    using dependency_in_allDeps [OF assms(1)] by (simp add: literal_lower)
  have r: "includes_str (allDepsOf p) ''react''"
    using dependency_in_allDeps [OF assms(2)] by (simp add: literal_lower)
  from e have "isBackend (allDepsOf p) (fileTypesOf p) (scriptsOf p)"
    by (simp add: isBackend_def)
  then show ?thesis using r
    by (simp add: projectType_performDeepProjectAnalysis detectCategory_def)
qed

theorem express_beats_react_witness:
  "''express'' \<in> set (dependencies expressReact) \<and>
   ''react'' \<in> set (dependencies expressReact) \<and>
   includes_str (allDepsOf expressReact) ''react'' \<and>
   projectType (performDeepProjectAnalysis expressReact []) = ''Backend API''"
proof -
  have e: "''express'' \<in> set (dependencies expressReact)"
    by (simp add: expressReact_def)
  have r: "''react'' \<in> set (dependencies expressReact)"
    by (simp add: expressReact_def)
  show ?thesis using e r express_beats_react [OF e r, of "[]"] by simp
qed

text \<open>
  \<^bold>\<open>C1\<close>, as stated, fails. The project named \<^verbatim>\<open>weather-chat\<close> triggers the weather rule
  and the chat rule. The code takes the weather purpose and appends the weather features
  only; the chat rule, the last one that matches, neither sets the purpose nor appends
  its features, and the result differs from that of the five rules run one after the
  other.
\<close>

theorem overlays_counterexample:
  "isWeather (projectNameOf weatherChat) (allDepsOf weatherChat) \<and>
   isChat (projectNameOf weatherChat) (allDepsOf weatherChat) \<and>
   mainPurpose (performDeepProjectAnalysis weatherChat []) = weatherPurpose \<and>
   mainPurpose (performDeepProjectAnalysis weatherChat []) \<noteq> chatPurpose \<and>
   specialFeatures (performDeepProjectAnalysis weatherChat []) = weatherFeatures \<and>
   mainPurpose (overlaysAsSpecified (projectNameOf weatherChat) (allDepsOf weatherChat)
     (initialAnalysis [])) = chatPurpose \<and>
   specialFeatures (overlaysAsSpecified (projectNameOf weatherChat) (allDepsOf weatherChat)
     (initialAnalysis [])) = weatherFeatures @ chatFeatures"
  by code_simp

text \<open>
  \<^bold>\<open>C1\<close>, amended. After the category is fixed, the five overlay rules are one
  \<^verbatim>\<open>if\<close>/\<^verbatim>\<open>else if\<close> chain: the first rule whose trigger matches, in the listed order, sets
  the purpose and appends its features, and no later rule is applied; when no rule
  matches, the purpose and the features stay as the category left them. The purpose of
  the whole analysis is the one this block leaves, and its features are those of the
  category, then those of that one rule, then those of the technology block.
\<close>

theorem overlay_first_match_only:
  "detectByName n d a =
     (case firstOverlay n d of
        None \<Rightarrow> a
      | Some (purpose, features) \<Rightarrow>
          a\<lparr> mainPurpose := purpose, specialFeatures := specialFeatures a @ features \<rparr>) \<and>
   mainPurpose (performDeepProjectAnalysis p structure) =
     (case firstOverlay (projectNameOf p) (allDepsOf p) of
        None \<Rightarrow>
          mainPurpose (detectCategory (allDepsOf p) (fileTypesOf p) (scriptsOf p)
            (initialAnalysis structure))
      | Some (purpose, features) \<Rightarrow> purpose) \<and>
   specialFeatures (performDeepProjectAnalysis p structure) =
     specialFeatures (detectCategory (allDepsOf p) (fileTypesOf p) (scriptsOf p)
       (initialAnalysis structure)) @
     (case firstOverlay (projectNameOf p) (allDepsOf p) of
        None \<Rightarrow> []
      | Some (purpose, features) \<Rightarrow> features) @
     specialFeatures (detectTechnologies (allDepsOf p) (fileTypesOf p)
       (initialAnalysis structure))"
proof (intro conjI)
  show "detectByName n d a =
     (case firstOverlay n d of
        None \<Rightarrow> a
      | Some (purpose, features) \<Rightarrow>
          a\<lparr> mainPurpose := purpose, specialFeatures := specialFeatures a @ features \<rparr>)"
    by (rule detectByName_first_match)
  show "mainPurpose (performDeepProjectAnalysis p structure) =
     (case firstOverlay (projectNameOf p) (allDepsOf p) of
        None \<Rightarrow>
          mainPurpose (detectCategory (allDepsOf p) (fileTypesOf p) (scriptsOf p)
            (initialAnalysis structure))
      | Some (purpose, features) \<Rightarrow> purpose)"
    by (simp add: mainPurpose_performDeepProjectAnalysis detectByName_first_match
        split: option.splits)
  let ?category = "detectCategory (allDepsOf p) (fileTypesOf p) (scriptsOf p)
      (initialAnalysis structure)"
  let ?named = "detectByName (projectNameOf p) (allDepsOf p) ?category"
  have i: "specialFeatures (initialAnalysis structure) = []"
    by (simp add: initialAnalysis_def)
  have 1: "specialFeatures (performDeepProjectAnalysis p structure) =
      specialFeatures (detectTechnologies (allDepsOf p) (fileTypesOf p) ?named)"
    by (simp add: performDeepProjectAnalysis_def)
  have 2: "specialFeatures (detectTechnologies (allDepsOf p) (fileTypesOf p) ?named) =
      specialFeatures ?named @
      specialFeatures (detectTechnologies (allDepsOf p) (fileTypesOf p)
        (initialAnalysis structure))"
    using i by (rule specialFeatures_detectTechnologies)
  have 3: "specialFeatures ?named =
      specialFeatures ?category @
      (case firstOverlay (projectNameOf p) (allDepsOf p) of
         None \<Rightarrow> []
       | Some (purpose, features) \<Rightarrow> features)"
    by (simp add: detectByName_first_match split: option.splits)
  show "specialFeatures (performDeepProjectAnalysis p structure) =
     specialFeatures (detectCategory (allDepsOf p) (fileTypesOf p) (scriptsOf p)
       (initialAnalysis structure)) @
     (case firstOverlay (projectNameOf p) (allDepsOf p) of
        None \<Rightarrow> []
      | Some (purpose, features) \<Rightarrow> features) @
     specialFeatures (detectTechnologies (allDepsOf p) (fileTypesOf p)
       (initialAnalysis structure))"
    by (simp only: 1 2 3 append_assoc)
qed

theorem overlay_first_match_only_witness:
  "firstOverlay (projectNameOf weatherChat) (allDepsOf weatherChat) =
     Some (weatherPurpose, weatherFeatures) \<and>
   detectByName (projectNameOf weatherChat) (allDepsOf weatherChat) (initialAnalysis []) =
     (initialAnalysis []) \<lparr> mainPurpose := weatherPurpose, specialFeatures := weatherFeatures \<rparr> \<and>
   mainPurpose (performDeepProjectAnalysis weatherChat []) = weatherPurpose \<and>
   specialFeatures (performDeepProjectAnalysis weatherChat []) = weatherFeatures"
proof -
  have f: "firstOverlay (projectNameOf weatherChat) (allDepsOf weatherChat) =
             Some (weatherPurpose, weatherFeatures)"
    by code_simp
  have c: "specialFeatures (detectCategory (allDepsOf weatherChat) (fileTypesOf weatherChat)
             (scriptsOf weatherChat) (initialAnalysis [])) = []"
    "specialFeatures (detectTechnologies (allDepsOf weatherChat) (fileTypesOf weatherChat)
             (initialAnalysis [])) = []"
    by code_simp+
  have i: "specialFeatures (initialAnalysis []) = []"
    by (simp add: initialAnalysis_def)
  note t = overlay_first_match_only
      [of "projectNameOf weatherChat" "allDepsOf weatherChat" "initialAnalysis []" weatherChat "[]"]
  from t have "detectByName (projectNameOf weatherChat) (allDepsOf weatherChat)
      (initialAnalysis []) =
     (initialAnalysis []) \<lparr> mainPurpose := weatherPurpose, specialFeatures := weatherFeatures \<rparr>"
    by (simp add: f i)
  moreover from t have "mainPurpose (performDeepProjectAnalysis weatherChat []) = weatherPurpose"
    by (simp add: f)
  moreover from t have "specialFeatures (performDeepProjectAnalysis weatherChat []) =
      weatherFeatures"
    by (simp add: f c)
  ultimately show ?thesis using f by blast
qed

text \<open>
  \<^bold>\<open>C4\<close>, as stated, fails. \<^verbatim>\<open>lodash\<close> as the only dependency matches none of the seven
  category rules, and the classifier returns the category "Application", not "Node.js";
  with no dependency at all it returns "Application" too, not "Software". The two labels
  come from \<^verbatim>\<open>detectFramework\<close>, which has signals of its own: \<^verbatim>\<open>next\<close> as the only
  dependency matches none of the seven rules either, and the label is "Next.js".
\<close>

theorem fallback_category_counterexample:
  "matchesNoCategoryRule lodashOnly \<and> dependencies lodashOnly \<noteq> [] \<and>
   projectType (performDeepProjectAnalysis lodashOnly []) = ''Application'' \<and>
   matchesNoCategoryRule emptyProject \<and>
   dependencies emptyProject = [] \<and> devDependencies emptyProject = [] \<and>
   projectType (performDeepProjectAnalysis emptyProject []) = ''Application'' \<and>
   matchesNoCategoryRule nextOnly \<and> dependencies nextOnly \<noteq> [] \<and>
   projectType (performDeepProjectAnalysis nextOnly []) = ''Application'' \<and>
   detectFramework nextOnly = ''Next.js''"
  by code_simp

text \<open>
  \<^bold>\<open>C4\<close>, amended. For every project that matches none of the category rules 1 to 7, the
  classifier returns the default category "Application" and a non-empty purpose, with
  or without dependencies. The labels "Node.js" and "Software" are those of
  \<^verbatim>\<open>detectFramework\<close>: for such a project, when no dependency name contains \<^verbatim>\<open>next\<close> or
  \<^verbatim>\<open>nuxt\<close>, it returns "Software" when there is neither a dependency nor a development
  dependency, and "Node.js" otherwise.
\<close>

theorem no_category_rule_fallback:
  assumes "matchesNoCategoryRule p"
  shows "projectType (performDeepProjectAnalysis p structure) = ''Application'' \<and>
         mainPurpose (performDeepProjectAnalysis p structure) \<noteq> [] \<and>
         (\<not> some (dependencies p @ devDependencies p)
               (\<lambda>dep. includes_str dep ''next'' \<or> includes_str dep ''nuxt'') \<longrightarrow>
          detectFramework p =
            (if dependencies p @ devDependencies p = [] then ''Software'' else ''Node.js''))"
proof -
  have "projectType (performDeepProjectAnalysis p structure) = ''Application''"
    by (simp add: performDeepProjectAnalysis_def detectCategory_no_rule [OF assms]
        initialAnalysis_def)
  moreover have "mainPurpose (performDeepProjectAnalysis p structure) \<noteq> []"
    by (simp add: performDeepProjectAnalysis_def detectCategory_no_rule [OF assms]
        mainPurpose_detectByName_nonempty initialAnalysis_def)
  ultimately show ?thesis using detectFramework_no_rule [OF assms] by blast
qed

theorem no_category_rule_fallback_witness:
  "matchesNoCategoryRule lodashOnly \<and>
   projectType (performDeepProjectAnalysis lodashOnly []) = ''Application'' \<and>
   mainPurpose (performDeepProjectAnalysis lodashOnly []) \<noteq> [] \<and>
   \<not> some (dependencies lodashOnly @ devDependencies lodashOnly)
        (\<lambda>dep. includes_str dep ''next'' \<or> includes_str dep ''nuxt'') \<and>
   detectFramework lodashOnly = ''Node.js''"
proof -
  have m: "matchesNoCategoryRule lodashOnly"
    by code_simp
  have n: "\<not> some (dependencies lodashOnly @ devDependencies lodashOnly)
               (\<lambda>dep. includes_str dep ''next'' \<or> includes_str dep ''nuxt'')"
    by code_simp
  have d: "dependencies lodashOnly @ devDependencies lodashOnly \<noteq> []"
    by (simp add: lodashOnly_def)
  show ?thesis using m n d no_category_rule_fallback [OF m, of "[]"] by simp
qed

subsection \<open>The AI strategy\<close>

lemma whiteSpace_length: "w \<in> set whiteSpace \<Longrightarrow> 0 < length w \<and> length w \<le> 3"
  by (auto simp: whiteSpace_def)

lemma trimStart_id: "whiteSpaceAtStart s = 0 \<Longrightarrow> trimStart s = s"
  by (subst trimStart.simps) simp

lemma trimEnd_id: "whiteSpaceAtEnd s = 0 \<Longrightarrow> trimEnd s = s"
  by (subst trimEnd.simps) simp

lemma whiteSpaceAtStart_hd:
  assumes "s = [] \<or> hd s \<notin> set (map hd whiteSpace)"
  shows "whiteSpaceAtStart s = 0"
proof -
  have "\<not> prefix w s" if "w \<in> set whiteSpace" for w
  proof
    assume p: "prefix w s"
    from that have "w \<noteq> []" using whiteSpace_length by fastforce
    with p have "s \<noteq> []" "hd s = hd w" by (auto simp: prefix_def)
    with assms that show False by auto
  qed
  then have "find (\<lambda>w. prefix w s) whiteSpace = None"
    by (simp add: find_None_iff)
  then show ?thesis by (simp add: whiteSpaceAtStart_def)
qed

lemma whiteSpaceAtEnd_last:
  assumes "s = [] \<or> last s \<notin> set (map last whiteSpace)"
  shows "whiteSpaceAtEnd s = 0"
proof -
  have "\<not> suffix w s" if "w \<in> set whiteSpace" for w
  proof
    assume p: "suffix w s"
    from that have "w \<noteq> []" using whiteSpace_length by fastforce
    with p have "s \<noteq> []" "last s = last w" by (auto simp: suffix_def)
    with assms that show False by auto
  qed
  then have "find (\<lambda>w. suffix w s) whiteSpace = None"
    by (simp add: find_None_iff)
  then show ?thesis by (simp add: whiteSpaceAtEnd_def)
qed

lemma trim_Nil [simp]: "trim [] = []"
  by (simp add: trim_def trimStart_id trimEnd_id whiteSpaceAtStart_hd whiteSpaceAtEnd_last)

lemma trim_id:
  assumes "hd s \<notin> set (map hd whiteSpace)" and "last s \<notin> set (map last whiteSpace)"
  shows "trim s = s"
  using assms
  by (simp add: trim_def trimStart_id trimEnd_id whiteSpaceAtStart_hd whiteSpaceAtEnd_last)

lemma trim_replicate:
  assumes "c \<notin> set (map hd whiteSpace)" and "c \<notin> set (map last whiteSpace)"
  shows "trim (replicate n c) = replicate n c"
proof (cases "n = 0")
  case True
  then show ?thesis by simp
next
  case False
  then have "hd (replicate n c) = c" "last (replicate n c) = c" by simp_all
  with assms show ?thesis by (simp add: trim_id)
qed

lemma whiteSpaceAtEnd_blank: "whiteSpaceAtEnd (s @ '' '') = 1"
  by (simp add: whiteSpaceAtEnd_def whiteSpace_def suffix_to_prefix)

lemma trimEnd_blank: "trimEnd (t @ '' '') = trimEnd t"
  by (subst trimEnd.simps) (simp add: whiteSpaceAtEnd_blank)

lemma trimEnd_blanks: "trimEnd (s @ replicate m CHR '' '') = trimEnd s"
proof (induction m)
  case 0
  show ?case by simp
next
  case (Suc m)
  have "replicate (Suc m) CHR '' '' = replicate m CHR '' '' @ '' ''"
    by (simp add: replicate_append_same)
  then have "s @ replicate (Suc m) CHR '' '' = (s @ replicate m CHR '' '') @ '' ''"
    by simp
  then have "trimEnd (s @ replicate (Suc m) CHR '' '') = trimEnd (s @ replicate m CHR '' '')"
    by (simp only: trimEnd_blank)
  with Suc show ?case by simp
qed

lemma trim_padded:
  assumes "c \<notin> set (map hd whiteSpace)" and "c \<notin> set (map last whiteSpace)" and "0 < n"
  shows "trim (replicate n c @ replicate m CHR '' '') = replicate n c"
proof -
  from assms(3) have "hd (replicate n c @ replicate m CHR '' '') = c" by simp
  with assms(1)
  have "trimStart (replicate n c @ replicate m CHR '' '') = replicate n c @ replicate m CHR '' ''"
    by (simp add: trimStart_id whiteSpaceAtStart_hd)
  moreover have "trimEnd (replicate n c) = replicate n c"
    using assms by (simp add: trimEnd_id whiteSpaceAtEnd_last)
  ultimately show ?thesis by (simp add: trim_def trimEnd_blanks)
qed

lemma jsLength_Nil [simp]: "jsLength [] = 0"
  by (simp add: jsLength_def)

lemma jsLength_append: "jsLength (s @ t) = jsLength s + jsLength t"
  by (simp add: jsLength_def)

lemma jsLength_replicate: "(of_char c :: nat) < 128 \<Longrightarrow> jsLength (replicate n c) = n"
  by (induction n) (simp_all add: jsLength_def)

lemma jsLength_concat_replicate: "jsLength (concat (replicate n s)) = n * jsLength s"
  by (induction n) (simp_all add: jsLength_append)

lemma suffix_short: "length w \<le> length z \<Longrightarrow> suffix w (y @ z) \<longleftrightarrow> suffix w z"
  by (auto simp: suffix_append)

lemma whiteSpaceAtEnd_append:
  assumes "3 \<le> length z"
  shows "whiteSpaceAtEnd (y @ z) = whiteSpaceAtEnd z"
proof -
  have "find (\<lambda>w. suffix w (y @ z)) whiteSpace = find (\<lambda>w. suffix w z) whiteSpace"
  proof (rule find_cong [OF refl])
    fix w assume "w \<in> set whiteSpace"
    then have "length w \<le> length z" using whiteSpace_length assms by fastforce
    then show "suffix w (y @ z) = suffix w z" by (rule suffix_short)
  qed
  then show ?thesis by (simp add: whiteSpaceAtEnd_def)
qed

lemma plain_chars:
  "CHR ''a'' \<notin> set (map hd whiteSpace)" "CHR ''a'' \<notin> set (map last whiteSpace)"
  "CHR ''b'' \<notin> set (map hd whiteSpace)" "CHR ''b'' \<notin> set (map last whiteSpace)"
  by (simp_all add: whiteSpace_def)

lemma concat_replicate_snoc: "concat (replicate (Suc k) s) = concat (replicate k s) @ s"
  by (induction k) simp_all

lemma trim_letters:
  "trim (replicate n CHR ''a'') = replicate n CHR ''a''"
  "trim (replicate n CHR ''b'') = replicate n CHR ''b''"
  "0 < n \<Longrightarrow> trim (replicate n CHR ''a'' @ replicate m CHR '' '') = replicate n CHR ''a''"
proof -
  show "trim (replicate n CHR ''a'') = replicate n CHR ''a''"
    by (rule trim_replicate) (rule plain_chars)+
  show "trim (replicate n CHR ''b'') = replicate n CHR ''b''"
    by (rule trim_replicate) (rule plain_chars)+
  show "trim (replicate n CHR ''a'' @ replicate m CHR '' '') = replicate n CHR ''a''" if "0 < n"
    using plain_chars(1,2) that by (rule trim_padded)
qed

lemma trim_rockets: "trim (concat (replicate n rocket)) = concat (replicate n rocket)"
proof (cases n)
  case 0
  then show ?thesis by simp
next
  case (Suc k)
  have "hd (concat (replicate n rocket)) = CHR 0xF0"
    using Suc by (simp add: rocket_def)
  then have s: "whiteSpaceAtStart (concat (replicate n rocket)) = 0"
    by (intro whiteSpaceAtStart_hd) (simp add: whiteSpace_def)
  have "concat (replicate n rocket) = concat (replicate k rocket) @ rocket"
    using Suc concat_replicate_snoc [of k rocket] by simp
  moreover have "whiteSpaceAtEnd rocket = 0"
    by (simp add: whiteSpaceAtEnd_def whiteSpace_def rocket_def suffix_to_prefix)
  ultimately have "whiteSpaceAtEnd (concat (replicate n rocket)) = 0"
    by (simp add: whiteSpaceAtEnd_append rocket_def)
  with s show ?thesis by (simp add: trim_def trimStart_id trimEnd_id)
qed

lemma jsLength_rocket: "jsLength rocket = 2"
  by (simp add: jsLength_def rocket_def)

lemma not_rethrown_literals:
  "\<not> rethrown ''Rate limit exceeded. Please try again later.''"
  "\<not> rethrown exhaustedMessage"
  "rethrown ''Invalid API key. Please check your Groq API key.''"
  by code_simp+

lemma tryModel_sufficient:
  "200 \<le> status \<Longrightarrow> status \<le> 299 \<Longrightarrow> 1000 \<le> jsLength (trim readme) \<Longrightarrow>
   tryModel (Response status (Content (Some readme))) = Return (trim readme)"
  by (auto simp: tryModel_def)

lemma insufficient_skipsModel: "insufficient outcome \<Longrightarrow> skipsModel outcome"
  by (auto simp: insufficient_def skipsModel_def tryModel_def
      split: fetch_outcome.splits body.splits option.splits if_splits)

lemma tryModels_skip_prefix:
  "\<forall>x\<in>set pre. skipsModel (fetch x) \<Longrightarrow>
   tryModels fetch (pre @ rest) =
     (pre @ fst (tryModels fetch rest), snd (tryModels fetch rest))"
  by (induction pre) (auto simp: skipsModel_def split: attempt.splits prod.splits)

lemma tryModels_exhausted:
  "tryModels fetch ms = (used, Inl (Error exhaustedMessage)) \<Longrightarrow>
   used = ms \<and> (\<forall>m\<in>set ms. skipsModel (fetch m))"
proof (induction ms arbitrary: used)
  case Nil
  then show ?case by simp
next
  case (Cons m ms)
  show ?case
  proof (cases "tryModel (fetch m)")
    case (Return r)
    with Cons.prems show ?thesis by simp
  next
    case Continue
    with Cons.prems obtain u where "tryModels fetch ms = (u, Inl (Error exhaustedMessage))"
      and "used = m # u" by (auto split: prod.splits)
    with Cons.IH [of u] Continue show ?thesis by (simp add: skipsModel_def)
  next
    case (Throw msg)
    show ?thesis
    proof (cases "rethrown msg")
      case True
      with Throw Cons.prems have "msg = exhaustedMessage" by simp
      with True not_rethrown_literals(2) show ?thesis by simp
    next
      case False
      with Throw Cons.prems obtain u where "tryModels fetch ms = (u, Inl (Error exhaustedMessage))"
        and "used = m # u" by (auto split: prod.splits)
      with Cons.IH [of u] Throw False show ?thesis by (simp add: skipsModel_def)
    qed
  qed
qed

lemma tryModels_all_skipped:
  "\<forall>m\<in>set ms. skipsModel (fetch m) \<Longrightarrow>
   tryModels fetch ms = (ms, Inl (Error exhaustedMessage))"
  by (induction ms) (auto simp: skipsModel_def exhaustedMessage_def split: attempt.splits)

lemma generateReadme_Groq_key:
  "getGroqApiKey config = Some apiKey \<Longrightarrow> apiKey \<noteq> [] \<Longrightarrow>
   generateReadme_Groq config fetch = tryModels fetch (modelsToTry config)"
  by (simp add: generateReadme_Groq_def)

lemma modelsToTry_withKey:
  "modelsToTry withKey =
     [''moonshotai/kimi-k2-instruct'', ''llama-3.3-70b-versatile'', ''llama-3.1-8b-instant'',
      ''gemma2-9b-it'']"
  by (simp add: modelsToTry_def withKey_def getPreferredModel_def models_def)

lemma getGroqApiKey_withKey:
  "getGroqApiKey withKey = Some ''gsk_0123456789abcdefghijklmnopqrstuvwxyzABCD''"
  by (simp add: getGroqApiKey_def withKey_def startsWith_def)

lemma generateReadme_Groq_withKey:
  "generateReadme_Groq withKey fetch = tryModels fetch (modelsToTry withKey)"
  by (simp add: generateReadme_Groq_key [OF getGroqApiKey_withKey])

lemma tryModel_429:
  "tryModel (Response 429 b) = Throw ''Rate limit exceeded. Please try again later.''"
  by (simp add: tryModel_def)

lemma tryModel_401:
  "tryModel (Response 401 b) = Throw ''Invalid API key. Please check your Groq API key.''"
  by (simp add: tryModel_def)

lemma tryModel_longReadme: "tryModel (Response 200 (Content (Some longReadme))) = Return longReadme"
  using tryModel_sufficient [of 200 longReadme]
  by (simp add: longReadme_def trim_letters jsLength_replicate)

lemma auth_error_immediate:
  "fetch model = Response 401 b \<Longrightarrow>
   tryModels fetch (model # rest) =
     ([model], Inl (Error ''Invalid API key. Please check your Groq API key.''))"
  by (simp add: tryModel_401 not_rethrown_literals)

lemma rate_limit_skipped:
  "fetch model = Response 429 b \<Longrightarrow>
   tryModels fetch (model # rest) =
     (model # fst (tryModels fetch rest), snd (tryModels fetch rest))"
  by (simp add: tryModel_429 not_rethrown_literals split: prod.splits)

lemma tryModel_shortReadme: "tryModel (Response 200 (Content (Some shortReadme))) = Continue"
  by (simp add: tryModel_def shortReadme_def trim_letters jsLength_replicate)

lemma tryModel_paddedReadme: "tryModel (Response 200 (Content (Some paddedReadme))) = Continue"
  by (simp add: tryModel_def paddedReadme_def trim_letters jsLength_replicate)

lemma trim_readme2000: "trim readme2000 = readme2000"
  by (simp add: readme2000_def trim_letters)

lemma jsLength_readme2000: "jsLength readme2000 = 2000"
  by (simp add: readme2000_def jsLength_replicate)

lemma tryModel_emojiReadme: "tryModel (Response 200 (Content (Some emojiReadme))) = Continue"
  by (simp add: tryModel_def emojiReadme_def trim_rockets jsLength_concat_replicate
      jsLength_rocket)

text \<open>
  \<^bold>\<open>C2.\<close> The claim holds for HTTP 401 (\<open>auth_error_immediate\<close>) and fails for HTTP 429:
  the error thrown for 429 says "Rate limit exceeded", the \<^verbatim>\<open>catch\<close> block looks for
  "rate limit" in lower case, and so the loop goes on. With 429 from the first model the
  second model is called and its document returned; with 429 from every model all four
  are called and the generic error is the result.
\<close>

theorem rate_limit_swallowed:
  "generateReadme_Groq withKey rateLimitedFirst =
     ([''moonshotai/kimi-k2-instruct'', ''llama-3.3-70b-versatile''], Inr longReadme) \<and>
   generateReadme_Groq withKey (\<lambda>model. Response 429 NotJson) =
     (modelsToTry withKey, Inl (Error exhaustedMessage))"
proof
  show "generateReadme_Groq withKey rateLimitedFirst =
     ([''moonshotai/kimi-k2-instruct'', ''llama-3.3-70b-versatile''], Inr longReadme)"
    by (simp add: generateReadme_Groq_withKey modelsToTry_withKey rateLimitedFirst_def
        tryModel_429 tryModel_longReadme not_rethrown_literals)
  show "generateReadme_Groq withKey (\<lambda>model. Response 429 NotJson) =
     (modelsToTry withKey, Inl (Error exhaustedMessage))"
    by (simp add: generateReadme_Groq_withKey modelsToTry_withKey
        tryModel_429 not_rethrown_literals exhaustedMessage_def)
qed


text \<open>
  \<^bold>\<open>C6\<close>, as stated, fails. Content of length exactly 1000 does not exceed 1000, and
  is returned. And with content of length 50 from the first model and of length 2000 from
  the second, of which the last 1500 characters are blanks, the second model is skipped
  too (the length that counts is that of the trimmed content) and the call ends in the
  generic error.
\<close>

theorem minimum_length_counterexample:
  "jsLength longReadme = 1000 \<and>
   generateReadme_Groq withKey (\<lambda>model. Response 200 (Content (Some longReadme))) =
     ([''moonshotai/kimi-k2-instruct''], Inr longReadme) \<and>
   jsLength shortReadme = 50 \<and> jsLength paddedReadme = 2000 \<and>
   generateReadme_Groq withKey shortThenPadded =
     (modelsToTry withKey, Inl (Error exhaustedMessage))"
proof -
  have "generateReadme_Groq withKey (\<lambda>model. Response 200 (Content (Some longReadme))) =
     ([''moonshotai/kimi-k2-instruct''], Inr longReadme)"
    by (simp add: generateReadme_Groq_withKey modelsToTry_withKey tryModel_longReadme)
  moreover have "tryModel (Response 503 NotJson) = Continue"
    by (simp add: tryModel_def)
  then have "generateReadme_Groq withKey shortThenPadded =
     (modelsToTry withKey, Inl (Error exhaustedMessage))"
    by (simp add: generateReadme_Groq_withKey modelsToTry_withKey shortThenPadded_def
        tryModel_shortReadme tryModel_paddedReadme exhaustedMessage_def)
  moreover have "jsLength paddedReadme = 2000"
    by (simp add: paddedReadme_def jsLength_append jsLength_replicate)
  ultimately show ?thesis
    by (simp add: longReadme_def shortReadme_def jsLength_replicate)
qed

text \<open>
  \<^bold>\<open>C6\<close>, amended. The strategy calls the preferred model first and the remaining models
  in their fixed order. A model is skipped when its call gives no usable document: an
  error that is not rethrown, a failure status, a body that is not JSON, no content, or
  content whose trimmed length is below 1000. The length is \<^verbatim>\<open>readme.trim().length\<close>, in
  UTF-16 code units, for every content: 400 rocket emoji are 1600 bytes and 800 code
  units, and are skipped. The first model whose trimmed content has a length of at least
  1000 ends the loop, and that trimmed content is returned with no error. The generic
  error is the result only when every model of the list was called and none returned a
  document.
\<close>

theorem first_sufficient_model_wins:
  "(getGroqApiKey config = Some apiKey \<and> apiKey \<noteq> [] \<and>
    modelsToTry config = tried @ model # rest \<and>
    (\<forall>m\<in>set tried. insufficient (fetch m)) \<and>
    fetch model = Response status (Content (Some readme)) \<and>
    200 \<le> status \<and> status \<le> 299 \<and> 1000 \<le> jsLength (trim readme) \<longrightarrow>
    generateReadme_Groq config fetch = (tried @ [model], Inr (trim readme))) \<and>
   (generateReadme_Groq config fetch = (used, Inl (Error exhaustedMessage)) \<longrightarrow>
    used = modelsToTry config \<and> (\<forall>m\<in>set used. \<forall>r. tryModel (fetch m) \<noteq> Return r)) \<and>
   hd (modelsToTry config) = getPreferredModel config \<and>
   tl (modelsToTry config) = filter (\<lambda>m. m \<noteq> getPreferredModel config) models"
proof (intro conjI impI)
  assume a: "getGroqApiKey config = Some apiKey \<and> apiKey \<noteq> [] \<and>
    modelsToTry config = tried @ model # rest \<and>
    (\<forall>m\<in>set tried. insufficient (fetch m)) \<and>
    fetch model = Response status (Content (Some readme)) \<and>
    200 \<le> status \<and> status \<le> 299 \<and> 1000 \<le> jsLength (trim readme)"
  then have "\<forall>m\<in>set tried. skipsModel (fetch m)"
    using insufficient_skipsModel by blast
  then have "tryModels fetch (tried @ model # rest) =
      (tried @ fst (tryModels fetch (model # rest)), snd (tryModels fetch (model # rest)))"
    by (rule tryModels_skip_prefix)
  moreover have "tryModels fetch (model # rest) = ([model], Inr (trim readme))"
    using a by (simp add: tryModel_sufficient)
  ultimately show "generateReadme_Groq config fetch = (tried @ [model], Inr (trim readme))"
    using a by (simp add: generateReadme_Groq_key)
next
  assume e: "generateReadme_Groq config fetch = (used, Inl (Error exhaustedMessage))"
  then have t: "tryModels fetch (modelsToTry config) = (used, Inl (Error exhaustedMessage))"
    by (auto simp: generateReadme_Groq_def exhaustedMessage_def
        split: option.splits if_splits)
  from tryModels_exhausted [OF t] show "used = modelsToTry config" by simp
  from tryModels_exhausted [OF t]
  show "\<forall>m\<in>set used. \<forall>r. tryModel (fetch m) \<noteq> Return r"
    by (auto simp: skipsModel_def split: attempt.splits)
qed (simp_all add: modelsToTry_def)


theorem first_sufficient_model_wins_witness:
  "generateReadme_Groq withKey shortThenLong =
     ([''moonshotai/kimi-k2-instruct'', ''llama-3.3-70b-versatile''], Inr readme2000) \<and>
   jsLength shortReadme = 50 \<and> jsLength readme2000 = 2000 \<and>
   generateReadme_Groq withKey (\<lambda>model. Response 503 NotJson) =
     (modelsToTry withKey, Inl (Error exhaustedMessage)) \<and>
   (\<forall>r. tryModel (Response 503 NotJson) \<noteq> Return r) \<and>
   length emojiReadme = 1600 \<and> jsLength emojiReadme = 800 \<and>
   generateReadme_Groq withKey (\<lambda>model. Response 200 (Content (Some emojiReadme))) =
     (modelsToTry withKey, Inl (Error exhaustedMessage))"
proof -
  let ?k = "''moonshotai/kimi-k2-instruct''" and ?l = "''llama-3.3-70b-versatile''"
  have s: "insufficient (Response 200 (Content (Some shortReadme)))"
    by (simp add: insufficient_def shortReadme_def trim_letters jsLength_replicate)
  have 1: "getGroqApiKey withKey = Some ''gsk_0123456789abcdefghijklmnopqrstuvwxyzABCD'' \<and>
      ''gsk_0123456789abcdefghijklmnopqrstuvwxyzABCD'' \<noteq> [] \<and>
      modelsToTry withKey = [?k] @ ?l # [''llama-3.1-8b-instant'', ''gemma2-9b-it''] \<and>
      (\<forall>m\<in>set [?k]. insufficient (shortThenLong m)) \<and>
      shortThenLong ?l = Response 200 (Content (Some readme2000)) \<and>
      (200::nat) \<le> 200 \<and> (200::nat) \<le> 299 \<and> 1000 \<le> jsLength (trim readme2000)"
    using s
    by (simp add: getGroqApiKey_withKey modelsToTry_withKey shortThenLong_def
        trim_readme2000 jsLength_readme2000)
  have 2: "generateReadme_Groq withKey (\<lambda>model. Response 503 NotJson) =
      (modelsToTry withKey, Inl (Error exhaustedMessage))"
    by (simp add: generateReadme_Groq_withKey modelsToTry_withKey tryModel_def
        exhaustedMessage_def)
  have 3: "generateReadme_Groq withKey (\<lambda>model. Response 200 (Content (Some emojiReadme))) =
      (modelsToTry withKey, Inl (Error exhaustedMessage))"
    by (simp add: generateReadme_Groq_withKey modelsToTry_withKey tryModel_emojiReadme
        exhaustedMessage_def)
  have 4: "length emojiReadme = 1600" "jsLength emojiReadme = 800"
    by (simp_all add: emojiReadme_def length_concat sum_list_replicate rocket_def
        jsLength_concat_replicate jsLength_rocket [unfolded rocket_def])
  have 5: "jsLength shortReadme = 50"
    by (simp add: shortReadme_def jsLength_replicate)
  from 1 have "generateReadme_Groq withKey shortThenLong = ([?k] @ [?l], Inr (trim readme2000))"
    using first_sufficient_model_wins
      [of withKey "''gsk_0123456789abcdefghijklmnopqrstuvwxyzABCD''" "[?k]" ?l
        "[''llama-3.1-8b-instant'', ''gemma2-9b-it'']" shortThenLong 200 readme2000]
    by blast
  then have 6: "generateReadme_Groq withKey shortThenLong = ([?k, ?l], Inr readme2000)"
    by (simp add: trim_readme2000)
  have "\<forall>m\<in>set (modelsToTry withKey). \<forall>r. tryModel (Response 503 NotJson) \<noteq> Return r"
    using 2 first_sufficient_model_wins
      [of withKey _ _ _ _ "\<lambda>model. Response 503 NotJson" _ _ "modelsToTry withKey"]
    by blast
  then have 7: "\<forall>r. tryModel (Response 503 NotJson) \<noteq> Return r"
    by (auto simp: modelsToTry_withKey)
  from 2 3 4 5 6 7 jsLength_readme2000 show ?thesis by blast
qed

subsection \<open>The orchestrator\<close>

lemma missing_credential:
  "getGroqApiKey config = None \<or> getGroqApiKey config = Some [] \<Longrightarrow>
   generateReadme_Groq config fetch =
     ([], Inl (Error ''No API key configured. Please set your Groq API key.''))"
  by (auto simp: generateReadme_Groq_def)

text \<open>
  \<^bold>\<open>C7\<close>, as stated, fails. After HTTP 401 the orchestrator shows the warning and then
  opens the dialog of \<^verbatim>\<open>manageApiKey\<close>, so a warning is not all the user sees; and when that
  dialog throws (it awaits a settings update outside any \<^verbatim>\<open>try\<close>), the error leaves
  \<^verbatim>\<open>generateWithAI\<close> and no document is returned.
\<close>

theorem warning_only_counterexample:
  "fst (generateWithAI withKey (\<lambda>model. Response 401 NotJson) None emptyProject
         (Directory []) []) =
     [ShowWarningMessage ([CHR 0xE2, CHR 0x9D, CHR 0x8C] @ '' Invalid API key. Using templates instead.''), ManageApiKey] \<and>
   snd (generateWithAI withKey (\<lambda>model. Response 401 NotJson)
         (Some (Error ''Unable to write into user settings'')) emptyProject
         (Directory []) []) =
     Inl (Error ''Unable to write into user settings'')"
proof -
  have "generateReadme_Groq withKey (\<lambda>model. Response 401 NotJson) =
      ([''moonshotai/kimi-k2-instruct''],
       Inl (Error ''Invalid API key. Please check your Groq API key.''))"
    by (simp add: generateReadme_Groq_withKey modelsToTry_withKey tryModel_401
        not_rethrown_literals)
  moreover have "includes_str ''Invalid API key. Please check your Groq API key.''
      ''Invalid API key''"
    by code_simp
  ultimately show ?thesis by (simp add: generateWithAI_def)
qed

text \<open>
  \<^bold>\<open>C7\<close>, amended. For every failure of the AI path, whatever its message (missing
  credential, authentication, rate limit, exhausted models): when the message does not
  contain "Invalid API key", the orchestrator shows one warning and returns the document
  of the templated strategy; when it does, the orchestrator shows one warning, opens the
  key management dialog, and returns the document of the templated strategy once that
  dialog has completed.
\<close>

theorem ai_failure_falls_back:
  assumes "snd (generateReadme_Groq config fetch) = Inl (Error errorMessage)"
  shows "(\<not> includes_str errorMessage ''Invalid API key'' \<longrightarrow>
          (\<exists>warning. generateWithAI config fetch manageApiKey p root tree =
             ([ShowWarningMessage warning], Inr (generateReadme_Template p root tree)))) \<and>
         (includes_str errorMessage ''Invalid API key'' \<longrightarrow>
          (\<exists>warning. generateWithAI config fetch None p root tree =
             ([ShowWarningMessage warning, ManageApiKey],
              Inr (generateReadme_Template p root tree))))"
  using assms by (simp add: generateWithAI_def)

theorem ai_failure_falls_back_witness:
  "snd (generateReadme_Groq noKey (\<lambda>model. Response 200 NotJson)) =
     Inl (Error ''No API key configured. Please set your Groq API key.'') \<and>
   (\<exists>warning. generateWithAI noKey (\<lambda>model. Response 200 NotJson) None emptyProject
       (Directory []) [] =
     ([ShowWarningMessage warning], Inr (generateReadme_Template emptyProject (Directory []) []))) \<and>
   snd (generateReadme_Groq withKey (\<lambda>model. Response 401 NotJson)) =
     Inl (Error ''Invalid API key. Please check your Groq API key.'') \<and>
   (\<exists>warning. generateWithAI withKey (\<lambda>model. Response 401 NotJson) None emptyProject
       (Directory []) [] =
     ([ShowWarningMessage warning, ManageApiKey],
      Inr (generateReadme_Template emptyProject (Directory []) [])))"
proof -
  have n: "snd (generateReadme_Groq noKey (\<lambda>model. Response 200 NotJson)) =
      Inl (Error ''No API key configured. Please set your Groq API key.'')"
    by (simp add: missing_credential getGroqApiKey_def noKey_def)
  have a: "snd (generateReadme_Groq withKey (\<lambda>model. Response 401 NotJson)) =
      Inl (Error ''Invalid API key. Please check your Groq API key.'')"
    by (simp add: generateReadme_Groq_withKey modelsToTry_withKey tryModel_401
        not_rethrown_literals)
  have i: "\<not> includes_str ''No API key configured. Please set your Groq API key.''
      ''Invalid API key''"
    "includes_str ''Invalid API key. Please check your Groq API key.'' ''Invalid API key''"
    by code_simp+
  show ?thesis
    using n a i
      ai_failure_falls_back [OF n, of None emptyProject "Directory []" "[]"]
      ai_failure_falls_back [OF a, of None emptyProject "Directory []" "[]"]
    by blast
qed

subsection \<open>The file scanner\<close>

lemma truncateTree_Directory: "\<exists>files'. truncateTree k (Directory files) = Directory files'"
  by (cases k) simp_all

lemma truncateTree_other: "\<forall>files. node \<noteq> Directory files \<Longrightarrow> truncateTree k node = node"
  by (cases node; cases k) simp_all

lemma scanEntries_truncate_step:
  assumes "depth < 2 \<Longrightarrow>
    (\<And>node exts. scanDirectory (truncateTree k node) (depth + 1) exts =
       scanDirectory node (depth + 1) exts)"
  shows "scanEntries (map (\<lambda>(f, n). (f, truncateTree k n)) files) depth exts =
         scanEntries files depth exts"
proof (induction files arbitrary: exts)
  case Nil
  show ?case by simp
next
  case (Cons entry files)
  obtain f node where entry: "entry = (f, node)" by (cases entry)
  show ?case
  proof (cases node)
    case (Directory sub)
    then obtain sub' where t: "truncateTree k node = Directory sub'"
      using truncateTree_Directory by blast
    have d: "scanDirectory (Directory sub') (depth + 1) exts =
             scanDirectory (Directory sub) (depth + 1) exts" if "depth < 2"
      using assms [OF that, of node exts] t Directory by (simp del: scanDirectory.simps)
    show ?thesis
    proof (cases "depth < 2")
      case True
      with d Cons show ?thesis
        by (simp del: scanDirectory.simps add: entry Directory t [unfolded Directory]
            split: prod.splits bool.splits)
    next
      case False
      with Cons show ?thesis
        by (simp del: scanDirectory.simps add: entry Directory t [unfolded Directory])
    qed
  qed (use entry Cons in
      \<open>simp_all del: scanDirectory.simps split: prod.splits bool.splits\<close>)
qed

lemma scanDirectory_truncate_step:
  assumes "\<And>files exts. scanEntries (map (\<lambda>(f, n). (f, truncateTree k n)) files) depth exts =
       scanEntries files depth exts"
  shows "scanDirectory (truncateTree (Suc k) dir) depth exts = scanDirectory dir depth exts"
  using assms by (cases dir) simp_all

lemma scanDirectory_truncate_2:
  "scanDirectory (truncateTree 1 dir) 2 exts = scanDirectory dir 2 exts"
  using scanDirectory_truncate_step [of 0 2] scanEntries_truncate_step [of 2 0]
  by (simp del: scanDirectory.simps)

lemma scanDirectory_truncate_1:
  "scanDirectory (truncateTree 2 dir) 1 exts = scanDirectory dir 1 exts"
proof -
  have "scanEntries (map (\<lambda>(f, n). (f, truncateTree 1 n)) files) 1 exts =
        scanEntries files 1 exts" for files exts
    using scanEntries_truncate_step [of 1 1] scanDirectory_truncate_2
    by (simp del: scanDirectory.simps add: numeral_2_eq_2)
  from scanDirectory_truncate_step [of 1 1, OF this] show ?thesis
    by (simp del: scanDirectory.simps add: numeral_2_eq_2)
qed

lemma scanDirectory_truncate_0:
  "scanDirectory (truncateTree 3 dir) 0 exts = scanDirectory dir 0 exts"
proof -
  have "scanEntries (map (\<lambda>(f, n). (f, truncateTree 2 n)) files) 0 exts =
        scanEntries files 0 exts" for files exts
    using scanEntries_truncate_step [of 0 2] scanDirectory_truncate_1
    by (simp del: scanDirectory.simps)
  from scanDirectory_truncate_step [of 2 0, OF this] show ?thesis
    by (simp del: scanDirectory.simps add: numeral_3_eq_3)
qed

lemma checkEntries_truncate_step:
  assumes "\<And>node. checkDirectory (truncateTree k node) (depth + 1) =
       checkDirectory node (depth + 1)"
  shows "checkEntries (map (\<lambda>(f, n). (f, truncateTree k n)) files) depth =
         checkEntries files depth"
proof (induction files)
  case Nil
  show ?case by simp
next
  case (Cons entry files)
  obtain f node where entry: "entry = (f, node)" by (cases entry)
  show ?case
  proof (cases node)
    case (Directory sub)
    then obtain sub' where t: "truncateTree k node = Directory sub'"
      using truncateTree_Directory by blast
    have d: "checkDirectory (Directory sub') (depth + 1) =
             checkDirectory (Directory sub) (depth + 1)"
      using assms [of node] t Directory by (simp del: checkDirectory.simps)
    with Cons show ?thesis
      by (simp del: checkDirectory.simps add: entry Directory t [unfolded Directory]
          split: option.splits bool.splits)
  qed (use entry Cons in
      \<open>simp_all del: checkDirectory.simps split: option.splits bool.splits\<close>)
qed

lemma checkDirectory_truncate_step:
  assumes "\<And>files. checkEntries (map (\<lambda>(f, n). (f, truncateTree k n)) files) depth =
       checkEntries files depth"
  shows "checkDirectory (truncateTree (Suc k) dir) depth = checkDirectory dir depth"
  using assms by (cases dir) simp_all

lemma checkDirectory_truncate_2:
  "checkDirectory (truncateTree 1 dir) 2 = checkDirectory dir 2"
proof -
  have "checkEntries (map (\<lambda>(f, n). (f, truncateTree 0 n)) files) 2 = checkEntries files 2"
    for files
    by (rule checkEntries_truncate_step) simp
  from checkDirectory_truncate_step [of 0 2, OF this] show ?thesis
    by (simp del: checkDirectory.simps)
qed

lemma checkDirectory_truncate_1:
  "checkDirectory (truncateTree 2 dir) 1 = checkDirectory dir 1"
proof -
  have "checkEntries (map (\<lambda>(f, n). (f, truncateTree 1 n)) files) 1 = checkEntries files 1"
    for files
    using checkEntries_truncate_step [of 1 1] checkDirectory_truncate_2
    by (simp del: checkDirectory.simps add: numeral_2_eq_2)
  from checkDirectory_truncate_step [of 1 1, OF this] show ?thesis
    by (simp del: checkDirectory.simps add: numeral_2_eq_2)
qed

lemma checkDirectory_truncate_0:
  "checkDirectory (truncateTree 3 dir) 0 = checkDirectory dir 0"
proof -
  have "checkEntries (map (\<lambda>(f, n). (f, truncateTree 2 n)) files) 0 = checkEntries files 0"
    for files
    using checkEntries_truncate_step [of 2 0] checkDirectory_truncate_1
    by (simp del: checkDirectory.simps)
  from checkDirectory_truncate_step [of 2 0, OF this] show ?thesis
    by (simp del: checkDirectory.simps add: numeral_3_eq_3)
qed

text \<open>
  \<^bold>\<open>C3\<close>, as stated, fails. In \<^verbatim>\<open>src/lib/index.spec.ts\<close> the file is at depth 3 below the
  root. Both scans read it: its extension is recorded and it counts as a test file; with
  everything below depth 2 cut off, there is no extension and no test file.
\<close>

theorem scans_depth_counterexample:
  "getFileTypes deepTree = [''.ts''] \<and> getFileTypes (truncateTree 2 deepTree) = [] \<and>
   hasTestFiles deepTree \<and> \<not> hasTestFiles (truncateTree 2 deepTree)"
  by code_simp


text \<open>
  \<^bold>\<open>C3\<close>, amended. The \<open>depth\<close> of the code is that of the directory being listed, and
  directories are listed while it is at most 2: both scans read the entries at depth at
  most 3 below the root (the root's children are at depth 1) and nothing deeper. Cutting
  the tree below depth 3 changes neither the recorded extensions nor the test-file
  result.
\<close>

theorem scans_read_three_levels:
  "getFileTypes (truncateTree 3 root) = getFileTypes root \<and>
   hasTestFiles (truncateTree 3 root) = hasTestFiles root"
  by (simp del: scanDirectory.simps checkDirectory.simps
      add: getFileTypes_def hasTestFiles_def scanDirectory_truncate_0 checkDirectory_truncate_0)


theorem scans_read_three_levels_witness:
  "truncateTree 3 fourLevels \<noteq> fourLevels \<and>
   getFileTypes (truncateTree 3 fourLevels) = getFileTypes fourLevels \<and>
   getFileTypes fourLevels = [''.ts''] \<and>
   hasTestFiles (truncateTree 3 fourLevels) = hasTestFiles fourLevels \<and>
   hasTestFiles fourLevels"
proof -
  have "truncateTree 3 fourLevels \<noteq> fourLevels"
    by (simp add: fourLevels_def numeral_3_eq_3)
  moreover have "getFileTypes fourLevels = [''.ts'']" "hasTestFiles fourLevels"
    by code_simp+
  ultimately show ?thesis
    using scans_read_three_levels [of fourLevels] by blast
qed

subsection \<open>The manifest reader\<close>

lemma detectFramework_no_dependencies:
  "dependencies p = [] \<Longrightarrow> devDependencies p = [] \<Longrightarrow>
   detectFramework p = (if ''.py'' \<in> set (fileTypes p) then ''Python'' else ''Software'')"
  by (simp add: detectFramework_def some_def)

lemma readManifest_missing: "m = Absent \<or> m = Unparsable \<Longrightarrow> readManifest m p = p"
  by (auto simp: readManifest_def)

lemma analyzeProject_missing:
  assumes "m = Absent \<or> m = Unparsable"
  shows "analyzeProject path m root =
           (initialProjectInfo (basename path) path)
             \<lparr> fileTypes := getFileTypes root, hasTests := hasTestFiles root,
               framework := Some (if ''.py'' \<in> set (getFileTypes root) then ''Python''
                                  else ''Software'') \<rparr>"
proof -
  let ?p = "(initialProjectInfo (basename path) path)
              \<lparr> fileTypes := getFileTypes root, hasTests := hasTestFiles root \<rparr>"
  have "dependencies ?p = []" "devDependencies ?p = []" "fileTypes ?p = getFileTypes root"
    by (simp_all add: initialProjectInfo_def)
  then have "detectFramework ?p =
      (if ''.py'' \<in> set (getFileTypes root) then ''Python'' else ''Software'')"
    using detectFramework_no_dependencies [of ?p] by simp
  then show ?thesis
    by (simp add: analyzeProject_def readManifest_missing [OF assms] Let_def)
qed

text \<open>
  \<^bold>\<open>C8.\<close> With no \<^verbatim>\<open>package.json\<close>, or with one that cannot be read or parsed, the
  analyzer returns the initial record with only the scan results and the framework label
  filled in: the name is the base name of the root path, the dependency, development
  dependency and script names are empty, and the optional fields are undefined.
\<close>

theorem missing_manifest_defaults:
  assumes "m = Absent \<or> m = Unparsable"
  shows "analyzeProject path m root =
           (initialProjectInfo (basename path) path)
             \<lparr> fileTypes := getFileTypes root, hasTests := hasTestFiles root,
               framework := Some (if ''.py'' \<in> set (getFileTypes root) then ''Python''
                                  else ''Software'') \<rparr> \<and>
         name (analyzeProject path m root) = basename path \<and>
         dependencies (analyzeProject path m root) = [] \<and>
         devDependencies (analyzeProject path m root) = [] \<and>
         scripts (analyzeProject path m root) = [] \<and>
         description (analyzeProject path m root) = None \<and>
         license (analyzeProject path m root) = None \<and>
         repository (analyzeProject path m root) = None \<and>
         version (analyzeProject path m root) = None \<and>
         author (analyzeProject path m root) = None \<and>
         homepage (analyzeProject path m root) = None"
  unfolding analyzeProject_missing [OF assms]
  by (simp add: initialProjectInfo_def)

theorem missing_manifest_defaults_witness:
  "name (analyzeProject ''/home/dev/my-app/'' Absent fourLevels) = ''my-app'' \<and>
   dependencies (analyzeProject ''/home/dev/my-app/'' Absent fourLevels) = [] \<and>
   devDependencies (analyzeProject ''/home/dev/my-app/'' Absent fourLevels) = [] \<and>
   scripts (analyzeProject ''/home/dev/my-app/'' Absent fourLevels) = [] \<and>
   name (analyzeProject ''/home/dev/my-app/'' Unparsable fourLevels) = ''my-app''"
proof -
  have b: "basename ''/home/dev/my-app/'' = ''my-app''" by code_simp
  have a: "Absent = Absent \<or> Absent = Unparsable" and u: "Unparsable = Absent \<or> Unparsable = Unparsable"
    by simp_all
  note A = missing_manifest_defaults [OF a, of "''/home/dev/my-app/''" fourLevels, THEN conjunct2]
  note U = missing_manifest_defaults [OF u, of "''/home/dev/my-app/''" fourLevels, THEN conjunct2]
  from A U show ?thesis unfolding b by blast
qed


subsection \<open>The templated strategy\<close>

lemma includes_str_concat_hd: "includes_str y x \<Longrightarrow> includes_str (concat (y # ys)) x"
  by (simp add: includes_str_def sublist_append)

lemma includes_str_concat_tl: "includes_str (concat ys) x \<Longrightarrow> includes_str (concat (y # ys)) x"
  by (simp add: includes_str_def sublist_append)

lemma includes_str_refl: "includes_str x x"
  by (simp add: includes_str_def)

lemma ifTruthy_None: "ifTruthy None f d = d"
  by (simp add: ifTruthy_def)

lemma MIT_line:
  "includes_str
     ''This project is licensed under the MIT License - see the [LICENSE](LICENSE) file for details.''
     ''MIT''"
  by code_simp

text \<open>
  \<^bold>\<open>C9.\<close> The document of the templated strategy contains the project name as it is (in
  the line \<^verbatim>\<open>cd <name>\<close> of the installation steps), and the word MIT whenever the
  license is undefined.
\<close>

theorem template_contains_name_and_MIT:
  "includes_str (generateReadme_Template p root tree) (name p) \<and>
   (license p = None \<longrightarrow> includes_str (generateReadme_Template p root tree) ''MIT'')"
proof
  show "includes_str (generateReadme_Template p root tree) (name p)"
    unfolding generateReadme_Template_def
    by (rule includes_str_concat_hd [OF includes_str_refl] | rule includes_str_concat_tl)+
  show "license p = None \<longrightarrow> includes_str (generateReadme_Template p root tree) ''MIT''"
  proof
    assume l: "license p = None"
    show "includes_str (generateReadme_Template p root tree) ''MIT''"
      unfolding generateReadme_Template_def l ifTruthy_None
      by (rule includes_str_concat_hd [OF MIT_line] | rule includes_str_concat_tl)+
  qed
qed

theorem template_contains_name_and_MIT_witness:
  "license myApp = None \<and>
   includes_str (generateReadme_Template myApp (Directory []) []) ''my-app'' \<and>
   includes_str (generateReadme_Template myApp (Directory []) []) ''MIT''"
proof -
  have l: "license myApp = None" and n: "name myApp = ''my-app''"
    by (simp_all add: myApp_def initialProjectInfo_def)
  show ?thesis
    using l n template_contains_name_and_MIT [of myApp "Directory []" "[]"] by simp
qed











end
